theory Spec2Isabelle
  imports Main
begin

section \<open>JavaScript values\<close>

text \<open>
  The values that flow through \<^verbatim>\<open>src/language-translator/v3.ts\<close>: parameter bags,
  header objects, request descriptors, callbacks and errors. An object is the list of its
  own enumerable properties in insertion order (JavaScript lists integer-like names first;
  that reordering is not modelled); a key bound to \<open>JUndefined\<close> is a
  property that exists with the value \<^verbatim>\<open>undefined\<close>, which JavaScript distinguishes
  from a key that is absent (\<^verbatim>\<open>'k' in o\<close>). \<open>JRef\<close> is a reference to an object of
  the store, known by its address: the caller's params object, or an object that the
  methods pass on without looking into it (an array of text, a Buffer, a stream, a file
  object); \<open>JFn\<close> is a function, known by identity. \<open>JError\<close> is an \<^verbatim>\<open>Error\<close> with its message,
  \<open>JMissing\<close> the validation error with the names it reports. Numbers do not occur in
  this API and are left out.
\<close>

datatype jsval =
    JUndefined
  | JNull
  | JBool bool
  | JStr string
  | JRef nat
  | JFn nat
  | JError string
  | JMissing "string list"
  | JArr "jsval list"
  | JObj "(string \<times> jsval) list"

type_synonym obj = "(string \<times> jsval) list"

text \<open>\<^verbatim>\<open>o[name]\<close>: the value of a property, \<^verbatim>\<open>undefined\<close> when there is none.\<close>

fun getProperty :: "obj \<Rightarrow> string \<Rightarrow> jsval" where
  "getProperty [] name = JUndefined"
| "getProperty ((k, v) # ps) name = (if k = name then v else getProperty ps name)"

text \<open>\<^verbatim>\<open>o[name] = newValue\<close>: an existing key keeps its place, a new key goes last.\<close>

fun setProperty :: "obj \<Rightarrow> string \<Rightarrow> jsval \<Rightarrow> obj" where
  "setProperty [] name newValue = [(name, newValue)]"
| "setProperty ((k, v) # ps) name newValue =
     (if k = name then (k, newValue) # ps else (k, v) # setProperty ps name newValue)"

text \<open>Truthiness, as \<^verbatim>\<open>if (x)\<close>, \<^verbatim>\<open>!x\<close> and \<^verbatim>\<open>x ? a : b\<close> test it.\<close>

definition truthy :: "jsval \<Rightarrow> bool" where
  "truthy v = (v \<noteq> JUndefined \<and> v \<noteq> JNull \<and> v \<noteq> JBool False \<and> v \<noteq> JStr [])"

text \<open>\<^verbatim>\<open>typeof x === 'function'\<close>.\<close>

definition is_function :: "jsval \<Rightarrow> bool" where
  "is_function v = (case v of JFn _ \<Rightarrow> True | _ \<Rightarrow> False)"

text \<open>
  The name of an index, in decimal, and the elements of an array or the characters of a
  string under the names of their indices.
\<close>

definition digit :: "nat \<Rightarrow> char" where
  "digit d = ''0123456789'' ! d"

function index_key :: "nat \<Rightarrow> string" where
  "index_key n = (if n < 10 then [digit n] else index_key (n div 10) @ [digit (n mod 10)])"
  by pat_completeness auto
termination
  by (relation "measure id") auto

fun indexed :: "nat \<Rightarrow> jsval list \<Rightarrow> obj" where
  "indexed i [] = []"
| "indexed i (x # xs) = (index_key i, x) # indexed (Suc i) xs"

text \<open>
  The properties a \<^verbatim>\<open>for (name in options)\<close> loop visits: those of a plain object,
  the indices of an array or of a string. \<^verbatim>\<open>undefined\<close> and \<^verbatim>\<open>null\<close> sources
  are skipped by \<^verbatim>\<open>extend\<close>; a function, an error or a boolean has no enumerable
  property, and a referenced payload is never given where the methods enumerate.
  \<open>plain\<close> is \<^verbatim>\<open>isPlainObject(src) ? src : {}\<close> and \<open>items\<close> is
  \<^verbatim>\<open>isArray(src) ? src : []\<close>.
\<close>

definition props :: "jsval \<Rightarrow> obj" where
  "props v =
     (case v of
        JObj ps \<Rightarrow> ps
      | JArr xs \<Rightarrow> indexed 0 xs
      | JStr s \<Rightarrow> indexed 0 (map (\<lambda>c. JStr [c]) s)
      | _ \<Rightarrow> [])"

definition plain :: "jsval \<Rightarrow> obj" where
  "plain v = (case v of JObj ps \<Rightarrow> ps | _ \<Rightarrow> [])"

definition items :: "jsval \<Rightarrow> jsval list" where
  "items v = (case v of JArr xs \<Rightarrow> xs | _ \<Rightarrow> [])"

text \<open>
  The names the loop visits, each once: an object has no two properties of one name, and
  \<open>getProperty\<close> reads the first binding of a name.
\<close>

definition ownKeys :: "obj \<Rightarrow> string list" where
  "ownKeys ps = remdups (map fst ps)"

section \<open>The \<^verbatim>\<open>extend\<close> package\<close>

text \<open>
  \<^verbatim>\<open>extend([deep,] target, ...sources)\<close> of the npm package \<^verbatim>\<open>extend\<close>, which every
  operation calls. For each name of a source, in order: with \<^verbatim>\<open>deep\<close>, a plain object or
  an array is merged recursively into what the target holds under that name when that is a
  plain object or an array too, else into a fresh \<^verbatim>\<open>{}\<close> or \<^verbatim>\<open>[]\<close>; any other
  value except \<^verbatim>\<open>undefined\<close> is assigned; \<^verbatim>\<open>undefined\<close> is not brought in.
  \<open>merge_value src copy\<close> is the value stored for a defined \<open>copy\<close> in deep mode,
  \<open>extend_names\<close> the loop over the names of one source, \<open>extend_items\<close> the same
  loop over the indices of an array: an index whose element is \<^verbatim>\<open>undefined\<close> is not
  assigned, so the array grows only as far as the last element that is defined.
\<close>

function merge_value :: "jsval \<Rightarrow> jsval \<Rightarrow> jsval"
  and extend_names :: "bool \<Rightarrow> obj \<Rightarrow> obj \<Rightarrow> string list \<Rightarrow> obj"
  and extend_items :: "jsval list \<Rightarrow> jsval list \<Rightarrow> jsval list"
where
  "merge_value src copy =
     (case copy of
        JObj ps \<Rightarrow> JObj (extend_names True (plain src) ps (ownKeys ps))
      | JArr xs \<Rightarrow> JArr (extend_items (items src) xs)
      | _ \<Rightarrow> copy)"
| "extend_names deep target options [] = target"
| "extend_names deep target options (name # names) =
     extend_names deep
       (if getProperty options name = JUndefined then target
        else setProperty target name
               (if deep then merge_value (getProperty target name) (getProperty options name)
                else getProperty options name))
       options names"
| "extend_items target [] = target"
| "extend_items [] (copy # xs) =
     (if copy = JUndefined
      then (case extend_items [] xs of [] \<Rightarrow> [] | y # ys \<Rightarrow> JUndefined # y # ys)
      else merge_value JUndefined copy # extend_items [] xs)"
| "extend_items (src # target) (copy # xs) =
     (if copy = JUndefined then src else merge_value src copy) # extend_items target xs"
  by pat_completeness auto
termination
proof -
  have smaller: "size (getProperty ps name) < size_list (size_prod (\<lambda>_. 0) size) ps"
    if "getProperty ps name \<noteq> JUndefined" for ps name
    using that by (induction ps) (auto split: if_splits)
  show ?thesis
    by (relation "inv_image (less_than <*lex*> less_than)
          (\<lambda>x. case x of
              Inl (s, c) \<Rightarrow> (size c, 0)
            | Inr (Inl (d, t, ps, ns)) \<Rightarrow>
                (size_list (size_prod (\<lambda>_. 0) size) ps, length ns)
            | Inr (Inr (t, xs)) \<Rightarrow> (size_list size xs, 0))")
      (auto simp: smaller)
qed

definition extend :: "bool \<Rightarrow> obj \<Rightarrow> jsval list \<Rightarrow> obj" where
  "extend deep target sources =
     fold (\<lambda>options t. extend_names deep t (props options) (ownKeys (props options)))
       sources target"

section \<open>Collaborators outside the file\<close>

text \<open>
  \<^verbatim>\<open>getSdkHeaders(serviceName, serviceVersion, operationId)\<close> of \<^verbatim>\<open>lib/common\<close> is a
  parameter of every operation below: the object of diagnostic headers it returns.
  \<^verbatim>\<open>this.createRequest(parameters, callback)\<close> of the base client is a parameter too:
  the arguments \<open>(err, body, response)\<close> with which it eventually invokes the completion
  handler, or \<open>None\<close> when it never does.
\<close>

type_synonym sdk_headers = "string \<Rightarrow> string \<Rightarrow> string \<Rightarrow> obj"
type_synonym transport = "jsval \<Rightarrow> (jsval \<times> jsval \<times> jsval) option"

text \<open>
  Modelled from the spec: \<^verbatim>\<open>getMissingParams\<close> is imported from the transport library
  and is not in the file. Section 4.1: the validator takes the supplied parameters and an
  ordered list of required names; a name is missing if it is absent from the mapping or
  bound to an empty/undefined value; the result is empty (here \<^verbatim>\<open>null\<close>) or the
  non-empty list of missing names (here the validation error that carries them); it never
  throws. The empty values are read as \<^verbatim>\<open>null\<close> and the empty string.
\<close>

definition isMissing :: "jsval \<Rightarrow> bool" where
  "isMissing v = (v = JUndefined \<or> v = JNull \<or> v = JStr [])"

definition getMissingParams :: "obj \<Rightarrow> string list \<Rightarrow> jsval" where
  "getMissingParams params requires =
     (let missing = filter (\<lambda>require. isMissing (getProperty params require)) requires
      in if missing = [] then JNull else JMissing missing)"

section \<open>What a call does\<close>

text \<open>
  After the promise check, a call either hands the validation error to its completion
  handler (\<open>Reported\<close>: \<^verbatim>\<open>return _callback(missingParams)\<close>) or hands the request
  descriptor to the transport (\<open>Sent\<close>: \<^verbatim>\<open>return this.createRequest(parameters,
  _callback)\<close>). A method called with a completion handler returns nothing
  (\<open>Completes\<close>, with the handler it uses); without one it returns a promise
  (\<open>Promises\<close>, with what the inner call did and the state the promise reaches).
  The signatures admit a function or nothing as the callback; the TypeError of calling a
  truthy value that is no function is not modelled.
\<close>

datatype outcome = Reported jsval | Sent jsval

datatype promise = Pending | Rejected jsval | Resolved jsval

datatype returned = Completes jsval outcome | Promises outcome promise

text \<open>The arguments the completion handler of a call is invoked with, if it ever is.\<close>

definition completion :: "transport \<Rightarrow> outcome \<Rightarrow> (jsval \<times> jsval \<times> jsval) option" where
  "completion createRequest out =
     (case out of
        Reported missingParams \<Rightarrow> Some (missingParams, JUndefined, JUndefined)
      | Sent parameters \<Rightarrow> createRequest parameters)"

text \<open>
  \<^verbatim>\<open>new Promise((resolve, reject) => { this.op(params, (err, bod, res) => { err ?
  reject(err) : _params.return_response ? resolve(res) : resolve(bod); }); })\<close>: the executor
  runs at once, \<open>inner\<close> is what the call with the handler did, \<open>params'\<close> the snapshot
  the handler closes over.
\<close>

definition new_Promise :: "transport \<Rightarrow> outcome \<Rightarrow> obj \<Rightarrow> returned" where
  "new_Promise createRequest inner params' =
     Promises inner
       (case completion createRequest inner of
          None \<Rightarrow> Pending
        | Some (err, bod, res) \<Rightarrow>
            if truthy err then Rejected err
            else if truthy (getProperty params' ''return_response'') then Resolved res
            else Resolved bod)"

section \<open>The client\<close>





section \<open>The operations\<close>

text \<open>
  Each method is split where the source returns its promise: \<open>op_request\<close> is the body
  after the promise check, run on the snapshot \<^verbatim>\<open>_params\<close> (written \<open>params'\<close>), and
  \<open>op\<close> is the whole method. In the promise branch the method calls itself with the
  caller's \<^verbatim>\<open>params\<close> and its own handler, so the inner call takes its own snapshot.
\<close>

definition translate_request :: "sdk_headers \<Rightarrow> obj \<Rightarrow> obj \<Rightarrow> outcome" where
  "translate_request getSdkHeaders this_options params' =
     (let requiredParams = [''text''];
          missingParams = getMissingParams params' requiredParams
      in if truthy missingParams then Reported missingParams
      else
        let body =
              [(''text'', getProperty params' ''text''),
               (''model_id'', getProperty params' ''model_id''),
               (''source'', getProperty params' ''source''),
               (''target'', getProperty params' ''target'')];
            sdkHeaders = getSdkHeaders ''language_translator'' ''v3'' ''translate'';
            parameters =
              [(''options'',
                  JObj [(''url'', JStr ''/v3/translate''),
                        (''method'', JStr ''POST''),
                        (''body'', JObj body)]),
               (''defaultOptions'',
                  JObj (extend True [] [JObj this_options,
                    JObj [(''headers'',
                      JObj (extend True sdkHeaders
                        [JObj [(''Accept'', JStr ''application/json''),
                               (''Content-Type'', JStr ''application/json'')],
                         getProperty params' ''headers'']))]]))]
        in Sent (JObj parameters))"

definition translate ::
  "sdk_headers \<Rightarrow> transport \<Rightarrow> obj \<Rightarrow> jsval \<Rightarrow> jsval \<Rightarrow> returned" where
  "translate getSdkHeaders createRequest this_options params callback =
     (let params' = extend False [] [params];
          callback' = callback
      in if \<not> truthy callback'
         then new_Promise createRequest
                (translate_request getSdkHeaders this_options (extend False [] [params])) params'
         else Completes callback' (translate_request getSdkHeaders this_options params'))"

definition identify_request :: "sdk_headers \<Rightarrow> obj \<Rightarrow> obj \<Rightarrow> outcome" where
  "identify_request getSdkHeaders this_options params' =
     (let requiredParams = [''text''];
          missingParams = getMissingParams params' requiredParams
      in if truthy missingParams then Reported missingParams
      else
        let body = getProperty params' ''text'';
            sdkHeaders = getSdkHeaders ''language_translator'' ''v3'' ''identify'';
            parameters =
              [(''options'',
                  JObj [(''url'', JStr ''/v3/identify''),
                        (''method'', JStr ''POST''),
                        (''body'', body)]),
               (''defaultOptions'',
                  JObj (extend True [] [JObj this_options,
                    JObj [(''headers'',
                      JObj (extend True sdkHeaders
                        [JObj [(''Accept'', JStr ''application/json''),
                               (''Content-Type'', JStr ''text/plain'')],
                         getProperty params' ''headers'']))]]))]
        in Sent (JObj parameters))"

definition identify ::
  "sdk_headers \<Rightarrow> transport \<Rightarrow> obj \<Rightarrow> jsval \<Rightarrow> jsval \<Rightarrow> returned" where
  "identify getSdkHeaders createRequest this_options params callback =
     (let params' = extend False [] [params];
          callback' = callback
      in if \<not> truthy callback'
         then new_Promise createRequest
                (identify_request getSdkHeaders this_options (extend False [] [params])) params'
         else Completes callback' (identify_request getSdkHeaders this_options params'))"

definition listIdentifiableLanguages_request :: "sdk_headers \<Rightarrow> obj \<Rightarrow> obj \<Rightarrow> outcome" where
  "listIdentifiableLanguages_request getSdkHeaders this_options params' =
     (let sdkHeaders = getSdkHeaders ''language_translator'' ''v3'' ''listIdentifiableLanguages'';
          parameters =
            [(''options'',
                JObj [(''url'', JStr ''/v3/identifiable_languages''),
                      (''method'', JStr ''GET'')]),
             (''defaultOptions'',
                JObj (extend True [] [JObj this_options,
                  JObj [(''headers'',
                    JObj (extend True sdkHeaders
                      [JObj [(''Accept'', JStr ''application/json'')],
                       getProperty params' ''headers'']))]]))]
      in Sent (JObj parameters))"

definition listIdentifiableLanguages ::
  "sdk_headers \<Rightarrow> transport \<Rightarrow> obj \<Rightarrow> jsval \<Rightarrow> jsval \<Rightarrow> returned" where
  "listIdentifiableLanguages getSdkHeaders createRequest this_options params callback =
     (let params' = (if is_function params \<and> \<not> truthy callback then []
                     else extend False [] [params]);
          callback' = (if is_function params \<and> \<not> truthy callback then params else callback)
      in if \<not> truthy callback'
         then new_Promise createRequest
                (listIdentifiableLanguages_request getSdkHeaders this_options
                   (extend False [] [params])) params'
         else Completes callback'
                (listIdentifiableLanguages_request getSdkHeaders this_options params'))"

definition createModel_request :: "sdk_headers \<Rightarrow> obj \<Rightarrow> obj \<Rightarrow> outcome" where
  "createModel_request getSdkHeaders this_options params' =
     (let requiredParams = [''base_model_id''];
          missingParams = getMissingParams params' requiredParams
      in if truthy missingParams then Reported missingParams
      else
        let formData =
              [(''forced_glossary'',
                  JObj [(''data'', getProperty params' ''forced_glossary''),
                        (''contentType'', JStr ''application/octet-stream'')]),
               (''parallel_corpus'',
                  JObj [(''data'', getProperty params' ''parallel_corpus''),
                        (''contentType'', JStr ''application/octet-stream'')])];
            query =
              [(''base_model_id'', getProperty params' ''base_model_id''),
               (''name'', getProperty params' ''name'')];
            sdkHeaders = getSdkHeaders ''language_translator'' ''v3'' ''createModel'';
            parameters =
              [(''options'',
                  JObj [(''url'', JStr ''/v3/models''),
                        (''method'', JStr ''POST''),
                        (''qs'', JObj query),
                        (''formData'', JObj formData)]),
               (''defaultOptions'',
                  JObj (extend True [] [JObj this_options,
                    JObj [(''headers'',
                      JObj (extend True sdkHeaders
                        [JObj [(''Accept'', JStr ''application/json''),
                               (''Content-Type'', JStr ''multipart/form-data'')],
                         getProperty params' ''headers'']))]]))]
        in Sent (JObj parameters))"

definition createModel ::
  "sdk_headers \<Rightarrow> transport \<Rightarrow> obj \<Rightarrow> jsval \<Rightarrow> jsval \<Rightarrow> returned" where
  "createModel getSdkHeaders createRequest this_options params callback =
     (let params' = extend False [] [params];
          callback' = callback
      in if \<not> truthy callback'
         then new_Promise createRequest
                (createModel_request getSdkHeaders this_options (extend False [] [params])) params'
         else Completes callback' (createModel_request getSdkHeaders this_options params'))"

definition deleteModel_request :: "sdk_headers \<Rightarrow> obj \<Rightarrow> obj \<Rightarrow> outcome" where
  "deleteModel_request getSdkHeaders this_options params' =
     (let requiredParams = [''model_id''];
          missingParams = getMissingParams params' requiredParams
      in if truthy missingParams then Reported missingParams
      else
        let path = [(''model_id'', getProperty params' ''model_id'')];
            sdkHeaders = getSdkHeaders ''language_translator'' ''v3'' ''deleteModel'';
            parameters =
              [(''options'',
                  JObj [(''url'', JStr ''/v3/models/{model_id}''),
                        (''method'', JStr ''DELETE''),
                        (''path'', JObj path)]),
               (''defaultOptions'',
                  JObj (extend True [] [JObj this_options,
                    JObj [(''headers'',
                      JObj (extend True sdkHeaders
                        [JObj [(''Accept'', JStr ''application/json'')],
                         getProperty params' ''headers'']))]]))]
        in Sent (JObj parameters))"

definition deleteModel ::
  "sdk_headers \<Rightarrow> transport \<Rightarrow> obj \<Rightarrow> jsval \<Rightarrow> jsval \<Rightarrow> returned" where
  "deleteModel getSdkHeaders createRequest this_options params callback =
     (let params' = extend False [] [params];
          callback' = callback
      in if \<not> truthy callback'
         then new_Promise createRequest
                (deleteModel_request getSdkHeaders this_options (extend False [] [params])) params'
         else Completes callback' (deleteModel_request getSdkHeaders this_options params'))"

definition getModel_request :: "sdk_headers \<Rightarrow> obj \<Rightarrow> obj \<Rightarrow> outcome" where
  "getModel_request getSdkHeaders this_options params' =
     (let requiredParams = [''model_id''];
          missingParams = getMissingParams params' requiredParams
      in if truthy missingParams then Reported missingParams
      else
        let path = [(''model_id'', getProperty params' ''model_id'')];
            sdkHeaders = getSdkHeaders ''language_translator'' ''v3'' ''getModel'';
            parameters =
              [(''options'',
                  JObj [(''url'', JStr ''/v3/models/{model_id}''),
                        (''method'', JStr ''GET''),
                        (''path'', JObj path)]),
               (''defaultOptions'',
                  JObj (extend True [] [JObj this_options,
                    JObj [(''headers'',
                      JObj (extend True sdkHeaders
                        [JObj [(''Accept'', JStr ''application/json'')],
                         getProperty params' ''headers'']))]]))]
        in Sent (JObj parameters))"

definition getModel ::
  "sdk_headers \<Rightarrow> transport \<Rightarrow> obj \<Rightarrow> jsval \<Rightarrow> jsval \<Rightarrow> returned" where
  "getModel getSdkHeaders createRequest this_options params callback =
     (let params' = extend False [] [params];
          callback' = callback
      in if \<not> truthy callback'
         then new_Promise createRequest
                (getModel_request getSdkHeaders this_options (extend False [] [params])) params'
         else Completes callback' (getModel_request getSdkHeaders this_options params'))"

definition listModels_request :: "sdk_headers \<Rightarrow> obj \<Rightarrow> obj \<Rightarrow> outcome" where
  "listModels_request getSdkHeaders this_options params' =
     (let query =
            [(''source'', getProperty params' ''source''),
             (''target'', getProperty params' ''target''),
             (''default'', getProperty params' ''default_models'')];
          sdkHeaders = getSdkHeaders ''language_translator'' ''v3'' ''listModels'';
          parameters =
            [(''options'',
                JObj [(''url'', JStr ''/v3/models''),
                      (''method'', JStr ''GET''),
                      (''qs'', JObj query)]),
             (''defaultOptions'',
                JObj (extend True [] [JObj this_options,
                  JObj [(''headers'',
                    JObj (extend True sdkHeaders
                      [JObj [(''Accept'', JStr ''application/json'')],
                       getProperty params' ''headers'']))]]))]
      in Sent (JObj parameters))"

definition listModels ::
  "sdk_headers \<Rightarrow> transport \<Rightarrow> obj \<Rightarrow> jsval \<Rightarrow> jsval \<Rightarrow> returned" where
  "listModels getSdkHeaders createRequest this_options params callback =
     (let params' = (if is_function params \<and> \<not> truthy callback then []
                     else extend False [] [params]);
          callback' = (if is_function params \<and> \<not> truthy callback then params else callback)
      in if \<not> truthy callback'
         then new_Promise createRequest
                (listModels_request getSdkHeaders this_options (extend False [] [params])) params'
         else Completes callback' (listModels_request getSdkHeaders this_options params'))"

section \<open>Reading a call\<close>

text \<open>
  The seven methods under one name each, to state a property of every operation, with the
  \<^verbatim>\<open>requiredParams\<close> list each method declares.
\<close>

datatype operation =
    Translate
  | Identify
  | ListIdentifiableLanguages
  | CreateModel
  | DeleteModel
  | GetModel
  | ListModels

fun invoke ::
  "operation \<Rightarrow> sdk_headers \<Rightarrow> transport \<Rightarrow> obj \<Rightarrow> jsval \<Rightarrow> jsval \<Rightarrow> returned" where
  "invoke Translate = translate"
| "invoke Identify = identify"
| "invoke ListIdentifiableLanguages = listIdentifiableLanguages"
| "invoke CreateModel = createModel"
| "invoke DeleteModel = deleteModel"
| "invoke GetModel = getModel"
| "invoke ListModels = listModels"

fun requiredParams :: "operation \<Rightarrow> string list" where
  "requiredParams Translate = [''text'']"
| "requiredParams Identify = [''text'']"
| "requiredParams ListIdentifiableLanguages = []"
| "requiredParams CreateModel = [''base_model_id'']"
| "requiredParams DeleteModel = [''model_id'']"
| "requiredParams GetModel = [''model_id'']"
| "requiredParams ListModels = []"

text \<open>
  The two methods that test \<^verbatim>\<open>typeof params === 'function' && !callback\<close>, to take a
  function given in the place of the params as the callback.
\<close>

definition callback_first_allowed :: "operation \<Rightarrow> bool" where
  "callback_first_allowed op = (op = ListIdentifiableLanguages \<or> op = ListModels)"

text \<open>The body of each method after its promise check, under the name of the operation.\<close>

fun request_of :: "operation \<Rightarrow> sdk_headers \<Rightarrow> obj \<Rightarrow> obj \<Rightarrow> outcome" where
  "request_of Translate = translate_request"
| "request_of Identify = identify_request"
| "request_of ListIdentifiableLanguages = listIdentifiableLanguages_request"
| "request_of CreateModel = createModel_request"
| "request_of DeleteModel = deleteModel_request"
| "request_of GetModel = getModel_request"
| "request_of ListModels = listModels_request"

text \<open>What the call did after the promise check, whichever way the method returned.\<close>

fun outcome_of :: "returned \<Rightarrow> outcome" where
  "outcome_of (Completes callback' out) = out"
| "outcome_of (Promises out p) = out"

text \<open>
  The request descriptor handed to \<^verbatim>\<open>createRequest\<close>; \<open>None\<close> when the transport
  is not invoked.
\<close>

definition request :: "returned \<Rightarrow> jsval option" where
  "request r = (case outcome_of r of Sent parameters \<Rightarrow> Some parameters | Reported _ \<Rightarrow> None)"

text \<open>\<^verbatim>\<open>v.k1.k2...\<close>, reading \<^verbatim>\<open>undefined\<close> where a step finds no object.\<close>

fun at_path :: "jsval \<Rightarrow> string list \<Rightarrow> jsval" where
  "at_path v [] = v"
| "at_path v (k # ks) = at_path (getProperty (props v) k) ks"

text \<open>
  The third argument each method gives \<^verbatim>\<open>getSdkHeaders\<close>, and the headers it fixes in
  the literal it merges over them.
\<close>

fun operationId :: "operation \<Rightarrow> string" where
  "operationId Translate = ''translate''"
| "operationId Identify = ''identify''"
| "operationId ListIdentifiableLanguages = ''listIdentifiableLanguages''"
| "operationId CreateModel = ''createModel''"
| "operationId DeleteModel = ''deleteModel''"
| "operationId GetModel = ''getModel''"
| "operationId ListModels = ''listModels''"

fun fixed_headers :: "operation \<Rightarrow> obj" where
  "fixed_headers Translate =
     [(''Accept'', JStr ''application/json''), (''Content-Type'', JStr ''application/json'')]"
| "fixed_headers Identify =
     [(''Accept'', JStr ''application/json''), (''Content-Type'', JStr ''text/plain'')]"
| "fixed_headers ListIdentifiableLanguages = [(''Accept'', JStr ''application/json'')]"
| "fixed_headers CreateModel =
     [(''Accept'', JStr ''application/json''), (''Content-Type'', JStr ''multipart/form-data'')]"
| "fixed_headers DeleteModel = [(''Accept'', JStr ''application/json'')]"
| "fixed_headers GetModel = [(''Accept'', JStr ''application/json'')]"
| "fixed_headers ListModels = [(''Accept'', JStr ''application/json'')]"

text \<open>
  The \<^verbatim>\<open>options\<close> literal of each method, read off the snapshot, and the
  \<^verbatim>\<open>parameters\<close> literal that a method hands to \<^verbatim>\<open>createRequest\<close>.
\<close>

fun options_literal :: "operation \<Rightarrow> obj \<Rightarrow> jsval" where
  "options_literal Translate params' =
     JObj [(''url'', JStr ''/v3/translate''),
           (''method'', JStr ''POST''),
           (''body'', JObj [(''text'', getProperty params' ''text''),
                            (''model_id'', getProperty params' ''model_id''),
                            (''source'', getProperty params' ''source''),
                            (''target'', getProperty params' ''target'')])]"
| "options_literal Identify params' =
     JObj [(''url'', JStr ''/v3/identify''),
           (''method'', JStr ''POST''),
           (''body'', getProperty params' ''text'')]"
| "options_literal ListIdentifiableLanguages params' =
     JObj [(''url'', JStr ''/v3/identifiable_languages''),
           (''method'', JStr ''GET'')]"
| "options_literal CreateModel params' =
     JObj [(''url'', JStr ''/v3/models''),
           (''method'', JStr ''POST''),
           (''qs'', JObj [(''base_model_id'', getProperty params' ''base_model_id''),
                          (''name'', getProperty params' ''name'')]),
           (''formData'', JObj
              [(''forced_glossary'',
                  JObj [(''data'', getProperty params' ''forced_glossary''),
                        (''contentType'', JStr ''application/octet-stream'')]),
               (''parallel_corpus'',
                  JObj [(''data'', getProperty params' ''parallel_corpus''),
                        (''contentType'', JStr ''application/octet-stream'')])])]"
| "options_literal DeleteModel params' =
     JObj [(''url'', JStr ''/v3/models/{model_id}''),
           (''method'', JStr ''DELETE''),
           (''path'', JObj [(''model_id'', getProperty params' ''model_id'')])]"
| "options_literal GetModel params' =
     JObj [(''url'', JStr ''/v3/models/{model_id}''),
           (''method'', JStr ''GET''),
           (''path'', JObj [(''model_id'', getProperty params' ''model_id'')])]"
| "options_literal ListModels params' =
     JObj [(''url'', JStr ''/v3/models''),
           (''method'', JStr ''GET''),
           (''qs'', JObj [(''source'', getProperty params' ''source''),
                          (''target'', getProperty params' ''target''),
                          (''default'', getProperty params' ''default_models'')])]"

definition descriptor :: "operation \<Rightarrow> sdk_headers \<Rightarrow> obj \<Rightarrow> obj \<Rightarrow> jsval" where
  "descriptor op getSdkHeaders this_options params' =
     JObj [(''options'', options_literal op params'),
           (''defaultOptions'',
              JObj (extend True [] [JObj this_options,
                JObj [(''headers'',
                  JObj (extend True
                    (getSdkHeaders ''language_translator'' ''v3'' (operationId op))
                    [JObj (fixed_headers op), getProperty params' ''headers'']))]]))]"

text \<open>The required parameters of the operation that are missing from the params.\<close>

definition lacking :: "operation \<Rightarrow> jsval \<Rightarrow> string list" where
  "lacking op params = [n \<leftarrow> requiredParams op. isMissing (getProperty (props params) n)]"

text \<open>
  The body of a method run on any object that reads as the params do: the validation error
  for the required parameters that are missing, or else the descriptor.
\<close>

definition outcome_for :: "operation \<Rightarrow> sdk_headers \<Rightarrow> obj \<Rightarrow> jsval \<Rightarrow> outcome" where
  "outcome_for op getSdkHeaders this_options params =
     (if lacking op params = [] then Sent (descriptor op getSdkHeaders this_options (props params))
      else Reported (JMissing (lacking op params)))"



text \<open>
  One layer laid over another at one key by the deep \<^verbatim>\<open>extend\<close>: an undefined value
  leaves the lower layer's, a plain object or an array is merged into it, any other value
  replaces it.
\<close>

definition layer :: "jsval \<Rightarrow> jsval \<Rightarrow> jsval" where
  "layer low high = (if high = JUndefined then low else merge_value low high)"

text \<open>The entries of an object literal that hold a value.\<close>

definition defined_entries :: "obj \<Rightarrow> obj" where
  "defined_entries ps = [e \<leftarrow> ps. snd e \<noteq> JUndefined]"

text \<open>
  Modelled from the spec: the query string is assembled by the transport, which is not in
  the file. Section 4.2: query assembly omits the entries whose value is undefined; a
  boolean is sent as the literal \<^verbatim>\<open>true\<close> or \<^verbatim>\<open>false\<close>. The entries that are sent,
  with their values:
\<close>

definition assemble_query :: "jsval \<Rightarrow> obj" where
  "assemble_query qs = [e \<leftarrow> props qs. snd e \<noteq> JUndefined]"

section \<open>The methods on a store\<close>

text \<open>
  Objects that outlive a statement live in a store: the client's \<^verbatim>\<open>_options\<close>, the
  caller's params object and the payloads it refers to, the snapshot \<^verbatim>\<open>_params\<close> and
  the object of diagnostic headers. A cell holds the object with the objects nested in it
  that the methods read (headers, query mapping) written out, and refers by \<open>JRef\<close> to
  the payloads that the methods only pass on. \<open>top\<close> is the first address not in use;
  \<open>alloc\<close> is an object literal or any other new object, \<open>assign\<close> an assignment to
  an object that exists, \<open>deref\<close> the object an argument stands for.
\<close>

datatype heap = Heap (cell: "nat \<Rightarrow> jsval") (top: nat)

definition alloc :: "jsval \<Rightarrow> heap \<Rightarrow> nat \<times> heap" where
  "alloc v h = (top h, Heap ((cell h)(top h := v)) (Suc (top h)))"

definition assign :: "nat \<Rightarrow> jsval \<Rightarrow> heap \<Rightarrow> heap" where
  "assign a v h = Heap ((cell h)(a := v)) (top h)"

definition deref :: "heap \<Rightarrow> jsval \<Rightarrow> jsval" where
  "deref h v = (case v of JRef a \<Rightarrow> cell h a | _ \<Rightarrow> v)"

text \<open>
  \<^verbatim>\<open>getSdkHeaders\<close> on a store: it returns the address of the object of diagnostic
  headers and the store it leaves. \<open>new_object g\<close> is a \<^verbatim>\<open>getSdkHeaders\<close> that
  returns a new object on every call, holding the headers \<open>g\<close> gives.
\<close>

type_synonym sdk_headers_at =
  "string \<Rightarrow> string \<Rightarrow> string \<Rightarrow> heap \<Rightarrow> nat \<times> heap"

definition new_object :: "sdk_headers \<Rightarrow> sdk_headers_at" where
  "new_object getSdkHeaders service version operation h =
     alloc (JObj (getSdkHeaders service version operation)) h"

text \<open>
  The body of a method after the promise check, with its effects: \<open>this_ref\<close> is the
  address of \<^verbatim>\<open>this._options\<close> and \<open>n\<close> that of \<^verbatim>\<open>_params\<close>. It reads
  \<^verbatim>\<open>_params\<close>; validates (the two methods without required parameters have no such
  step, and none is missing for them); takes the object of diagnostic headers from
  \<^verbatim>\<open>getSdkHeaders\<close>; lets \<^verbatim>\<open>extend(true, sdkHeaders, {...}, _params.headers)\<close>
  write that object, its target; and builds \<^verbatim>\<open>defaultOptions\<close> by
  \<^verbatim>\<open>extend(true, {}, this._options, {headers: ...})\<close>, whose target is a new object, so
  that \<^verbatim>\<open>this._options\<close> is read and not written. The result is the store it leaves and
  what it did.
\<close>

definition body_at ::
  "operation \<Rightarrow> sdk_headers_at \<Rightarrow> nat \<Rightarrow> nat \<Rightarrow> heap \<Rightarrow> heap \<times> outcome" where
  "body_at op getSdkHeaders this_ref n h =
     (let params' = props (cell h n);
          missingParams = getMissingParams params' (requiredParams op)
      in if truthy missingParams then (h, Reported missingParams)
         else
           let (sdkHeaders, h1) = getSdkHeaders ''language_translator'' ''v3'' (operationId op) h;
               h2 = assign sdkHeaders
                      (JObj (extend True (plain (cell h1 sdkHeaders))
                               [JObj (fixed_headers op), getProperty params' ''headers'']))
                      h1;
               parameters =
                 [(''options'', options_literal op params'),
                  (''defaultOptions'',
                     JObj (extend True []
                             [cell h2 this_ref, JObj [(''headers'', cell h2 sdkHeaders)]]))]
           in (h2, Sent (JObj parameters)))"

text \<open>
  A method called on a store: \<^verbatim>\<open>params\<close> is a reference to the caller's object (or
  \<^verbatim>\<open>undefined\<close>, or a function), and \<^verbatim>\<open>const _params = extend({}, params)\<close> makes
  a new object of its own. With a completion handler the body runs on that snapshot.
  Without one, the executor of \<^verbatim>\<open>new Promise\<close> calls the method again at once with the
  caller's \<^verbatim>\<open>params\<close> and the promise's handler, and that inner call takes a snapshot
  of its own; the handler keeps the first snapshot, to read
  \<^verbatim>\<open>_params.return_response\<close> when the transport completes. A call leaves the store
  \<open>heap_after\<close>, has done \<open>did\<close>, and completes through \<open>handler\<close>: the caller's
  callback, or the promise's handler with the address of the snapshot it reads.
\<close>

datatype call = Call (heap_after: heap) (did: outcome) (handler: "jsval + nat")

definition method_at ::
  "operation \<Rightarrow> sdk_headers_at \<Rightarrow> nat \<Rightarrow> jsval \<Rightarrow> jsval \<Rightarrow> heap \<Rightarrow> call" where
  "method_at op getSdkHeaders this_ref params callback h =
     (let callback_first = (callback_first_allowed op \<and> is_function params \<and> \<not> truthy callback);
          (n, h1) = alloc (JObj (if callback_first then []
                                 else extend False [] [deref h params])) h;
          callback' = (if callback_first then params else callback)
      in if \<not> truthy callback'
         then
           let (m, h2) = alloc (JObj (extend False [] [deref h1 params])) h1;
               (h3, out) = body_at op getSdkHeaders this_ref m h2
           in Call h3 out (Inr n)
         else
           let (h2, out) = body_at op getSdkHeaders this_ref n h1
           in Call h2 out (Inl callback'))"

text \<open>
  \<open>refs\<close> are the addresses a value refers to, and \<open>resolve n s\<close> is a value with
  every reference replaced by what the store \<open>s\<close> holds, followed \<open>n\<close> references
  deep: what a reader of the value finds.
\<close>

type_synonym store = "nat \<Rightarrow> jsval"

fun refs :: "jsval \<Rightarrow> nat set"
  and refs_items :: "jsval list \<Rightarrow> nat set"
  and refs_props :: "obj \<Rightarrow> nat set"
where
  "refs (JRef a) = {a}"
| "refs (JArr xs) = refs_items xs"
| "refs (JObj ps) = refs_props ps"
| "refs JUndefined = {}"
| "refs JNull = {}"
| "refs (JBool b) = {}"
| "refs (JStr s) = {}"
| "refs (JFn f) = {}"
| "refs (JError m) = {}"
| "refs (JMissing ns) = {}"
| "refs_items [] = {}"
| "refs_items (x # xs) = refs x \<union> refs_items xs"
| "refs_props [] = {}"
| "refs_props ((k, v) # ps) = refs v \<union> refs_props ps"

text \<open>A value that refers to objects of the store only.\<close>

definition allocated :: "heap \<Rightarrow> jsval \<Rightarrow> bool" where
  "allocated h v = (case v of JRef a \<Rightarrow> a < top h | _ \<Rightarrow> True)"

fun resolve :: "nat \<Rightarrow> store \<Rightarrow> jsval \<Rightarrow> jsval"
  and resolve_items :: "nat \<Rightarrow> store \<Rightarrow> jsval list \<Rightarrow> jsval list"
  and resolve_props :: "nat \<Rightarrow> store \<Rightarrow> obj \<Rightarrow> obj"
where
  "resolve 0 s (JRef a) = JRef a"
| "resolve (Suc n) s (JRef a) = resolve n s (s a)"
| "resolve n s (JArr xs) = JArr (resolve_items n s xs)"
| "resolve n s (JObj ps) = JObj (resolve_props n s ps)"
| "resolve n s JUndefined = JUndefined"
| "resolve n s JNull = JNull"
| "resolve n s (JBool b) = JBool b"
| "resolve n s (JStr t) = JStr t"
| "resolve n s (JFn f) = JFn f"
| "resolve n s (JError m) = JError m"
| "resolve n s (JMissing ns) = JMissing ns"
| "resolve_items n s [] = []"
| "resolve_items n s (x # xs) = resolve n s x # resolve_items n s xs"
| "resolve_props n s [] = []"
| "resolve_props n s ((k, v) # ps) = (k, resolve n s v) # resolve_props n s ps"

text \<open>
  How a call completes when the store has become \<open>later\<close>: the transport reads the
  descriptor then, \<open>depth\<close> references deep, and the promise's handler reads its
  snapshot then.
\<close>

definition settle_at :: "transport \<Rightarrow> nat \<Rightarrow> heap \<Rightarrow> call \<Rightarrow> returned" where
  "settle_at createRequest depth later c =
     (case handler c of
        Inl callback' \<Rightarrow> Completes callback' (did c)
      | Inr n \<Rightarrow>
          new_Promise (\<lambda>parameters. createRequest (resolve depth (cell later) parameters))
            (did c) (props (cell later n)))"

text \<open>What the transport finds in the descriptor of a call when the store is \<open>later\<close>.\<close>

definition transport_reads :: "nat \<Rightarrow> heap \<Rightarrow> call \<Rightarrow> jsval option" where
  "transport_reads depth later c =
     (case did c of
        Sent parameters \<Rightarrow> Some (resolve depth (cell later) parameters)
      | Reported _ \<Rightarrow> None)"

section \<open>Properties of \<^verbatim>\<open>extend\<close>\<close>

lemma props_JObj: "props (JObj ps) = ps"
  by (simp add: props_def)

lemma plain_JObj: "plain (JObj ps) = ps"
  by (simp add: plain_def)

lemma getProperty_setProperty:
  "getProperty (setProperty t n v) k = (if k = n then v else getProperty t k)"
  by (induction t) auto

lemma getProperty_absent:
  "k \<notin> fst ` set ps \<Longrightarrow> getProperty ps k = JUndefined"
  by (induction ps) auto

lemma distinct_ownKeys: "distinct (ownKeys ps)"
  by (simp add: ownKeys_def)

lemma set_ownKeys: "set (ownKeys ps) = fst ` set ps"
  by (simp add: ownKeys_def)



text \<open>What one pass over the names of a source leaves under a key.\<close>

lemma getProperty_extend_names:
  "distinct ns \<Longrightarrow>
   getProperty (extend_names deep t ps ns) k =
     (if k \<in> set ns \<and> getProperty ps k \<noteq> JUndefined
      then (if deep then merge_value (getProperty t k) (getProperty ps k) else getProperty ps k)
      else getProperty t k)"
proof (induction ns arbitrary: t)
  case Nil
  then show ?case by simp
next
  case (Cons n ns)
  then show ?case
    by (auto simp: getProperty_setProperty simp del: merge_value.simps)
qed

lemma getProperty_extend1:
  "getProperty (extend deep t [s]) k =
     (if getProperty (props s) k \<noteq> JUndefined
      then (if deep then merge_value (getProperty t k) (getProperty (props s) k)
            else getProperty (props s) k)
      else getProperty t k)"
  using getProperty_absent[of k "props s"]
  by (auto simp: extend_def ownKeys_def getProperty_extend_names simp del: merge_value.simps)

lemma getProperty_extend_deep1:
  "getProperty (extend True t [s]) k = layer (getProperty t k) (getProperty (props s) k)"
  by (simp add: getProperty_extend1 layer_def del: merge_value.simps)

text \<open>The snapshot \<^verbatim>\<open>extend({}, params)\<close> reads as the params do.\<close>

lemma getProperty_snapshot:
  "getProperty (extend False [] [params]) k = getProperty (props params) k"
  by (simp add: getProperty_extend1)

lemma getProperty_merge_obj:
  "getProperty (plain (merge_value s (JObj ps))) k =
     layer (getProperty (plain s) k) (getProperty ps k)"
  using getProperty_absent[of k ps]
  by (auto simp: plain_JObj layer_def getProperty_extend_names distinct_ownKeys set_ownKeys
      simp del: merge_value.simps extend_names.simps
      simp add: merge_value.simps[of s "JObj ps"])

section \<open>The descriptor of a call\<close>

lemmas op_defs =
  translate_def identify_def listIdentifiableLanguages_def createModel_def deleteModel_def
  getModel_def listModels_def

lemmas request_defs =
  translate_request_def identify_request_def listIdentifiableLanguages_request_def
  createModel_request_def deleteModel_request_def getModel_request_def listModels_request_def

lemma request_Completes:
  "request (Completes c out) = (case out of Sent p \<Rightarrow> Some p | Reported _ \<Rightarrow> None)"
  by (simp add: request_def)

lemma request_new_Promise:
  "request (new_Promise tr out ps) = (case out of Sent p \<Rightarrow> Some p | Reported _ \<Rightarrow> None)"
  by (simp add: request_def new_Promise_def)

text \<open>The body of every method, by the tables: it validates, then builds the descriptor.\<close>

lemma request_of_shape:
  "request_of op getSdkHeaders this_options params' =
     (if truthy (getMissingParams params' (requiredParams op))
      then Reported (getMissingParams params' (requiredParams op))
      else Sent (descriptor op getSdkHeaders this_options params'))"
  by (cases op) (simp_all add: request_defs descriptor_def Let_def getMissingParams_def truthy_def)

lemma descriptor_reads:
  "(\<And>k. getProperty ps k = getProperty qs k) \<Longrightarrow>
   descriptor op getSdkHeaders this_options ps = descriptor op getSdkHeaders this_options qs"
  by (cases op) (simp_all add: descriptor_def)

lemma getMissingParams_reads:
  "(\<And>k. getProperty ps k = getProperty qs k) \<Longrightarrow>
   getMissingParams ps requires = getMissingParams qs requires"
  by (simp add: getMissingParams_def)

lemma getMissingParams_lacking:
  "getMissingParams (props params) (requiredParams op) =
     (if lacking op params = [] then JNull else JMissing (lacking op params))"
  by (simp add: getMissingParams_def lacking_def Let_def)

lemma new_Promise_reads:
  "getProperty ps ''return_response'' = getProperty qs ''return_response'' \<Longrightarrow>
   new_Promise tr out ps = new_Promise tr out qs"
  by (simp add: new_Promise_def split: option.splits prod.splits)

lemma request_of_reads:
  assumes "\<And>k. getProperty ps k = getProperty (props params) k"
  shows "request_of op getSdkHeaders this_options ps =
         outcome_for op getSdkHeaders this_options params"
proof -
  have "getMissingParams ps (requiredParams op) =
      getMissingParams (props params) (requiredParams op)"
    using assms by (rule getMissingParams_reads)
  moreover have "descriptor op getSdkHeaders this_options ps =
      descriptor op getSdkHeaders this_options (props params)"
    using assms by (rule descriptor_reads)
  ultimately show ?thesis
    by (simp add: request_of_shape getMissingParams_lacking outcome_for_def truthy_def)
qed

lemma lacking_function: "is_function params \<Longrightarrow> props params = []"
  by (auto simp: is_function_def props_def split: jsval.splits)

text \<open>What every method returns.\<close>

lemma invoke_shape:
  "invoke op getSdkHeaders createRequest this_options params callback =
     (if callback_first_allowed op \<and> is_function params \<and> \<not> truthy callback
      then Completes params (outcome_for op getSdkHeaders this_options params)
      else if truthy callback
      then Completes callback (outcome_for op getSdkHeaders this_options params)
      else new_Promise createRequest (outcome_for op getSdkHeaders this_options params)
             (props params))"
proof -
  note snap = request_of_reads[of "extend False [] [params]" params op getSdkHeaders this_options,
      OF getProperty_snapshot]
  have empty: "request_of op getSdkHeaders this_options [] =
      outcome_for op getSdkHeaders this_options params" if "is_function params"
    using that by (intro request_of_reads) (simp add: lacking_function)
  have np: "new_Promise createRequest out (extend False [] [params]) =
      new_Promise createRequest out (props params)" for out
    by (rule new_Promise_reads) (rule getProperty_snapshot)
  have fn: "truthy params" if "is_function params"
    using that by (auto simp: is_function_def truthy_def split: jsval.splits)
  show ?thesis
    using snap empty np fn
    by (cases op) (auto simp: op_defs callback_first_allowed_def Let_def)
qed



lemma extend_two: "extend deep t [a, b] = extend deep (extend deep t [a]) [b]"
  by (simp add: extend_def)

lemma plain_layer_undefined:
  "getProperty (plain (layer JUndefined v)) k = layer JUndefined (getProperty (plain v) k)"
proof (cases v)
  case (JObj dh)
  have "layer JUndefined v = merge_value JUndefined (JObj dh)"
    unfolding layer_def JObj by simp
  then have "getProperty (plain (layer JUndefined v)) k =
      layer (getProperty (plain JUndefined) k) (getProperty dh k)"
    by (simp only: getProperty_merge_obj)
  also have "plain JUndefined = []" by (simp add: plain_def)
  finally show ?thesis by (simp add: JObj plain_JObj)
next
  case JUndefined then show ?thesis by (simp add: layer_def plain_def)
next
  case JNull then show ?thesis by (simp add: layer_def plain_def)
next
  case (JBool b) then show ?thesis by (simp add: layer_def plain_def)
next
  case (JStr s) then show ?thesis by (simp add: layer_def plain_def)
next
  case (JRef s) then show ?thesis by (simp add: layer_def plain_def)
next
  case (JFn s) then show ?thesis by (simp add: layer_def plain_def)
next
  case (JError s) then show ?thesis by (simp add: layer_def plain_def)
next
  case (JMissing s) then show ?thesis by (simp add: layer_def plain_def)
next
  case (JArr s) then show ?thesis by (simp add: layer_def plain_def)
qed

text \<open>The merged headers at one key.\<close>

lemma descriptor_headers:
  "getProperty (extend True [] [JObj this_options,
       JObj [(''headers'', JObj (extend True sdkHeaders [JObj fixed, callerHeaders]))]])
     ''headers'' = JObj hs \<Longrightarrow>
   getProperty hs k =
     layer (layer JUndefined (getProperty (plain (getProperty this_options ''headers'')) k))
       (layer (layer (getProperty sdkHeaders k) (getProperty fixed k))
          (getProperty (props callerHeaders) k))"
proof -
  let ?inner = "extend True sdkHeaders [JObj fixed, callerHeaders]"
  let ?base = "layer JUndefined (getProperty this_options ''headers'')"
  assume hs: "getProperty (extend True [] [JObj this_options,
       JObj [(''headers'', JObj ?inner)]]) ''headers'' = JObj hs"
  have inner: "getProperty ?inner k =
      layer (layer (getProperty sdkHeaders k) (getProperty fixed k))
        (getProperty (props callerHeaders) k)"
    by (simp add: extend_two getProperty_extend_deep1
        props_JObj)
  have "getProperty (extend True [] [JObj this_options, JObj [(''headers'', JObj ?inner)]])
        ''headers'' = merge_value ?base (JObj ?inner)"
    by (simp add: extend_two getProperty_extend_deep1
        props_JObj layer_def del: merge_value.simps)
  with hs have "hs = plain (merge_value ?base (JObj ?inner))"
    by (simp add: plain_JObj del: merge_value.simps)
  then show ?thesis
    by (simp add: getProperty_merge_obj plain_layer_undefined inner del: merge_value.simps)
qed

lemma descriptor_headers_obj:
  "\<exists>hs. getProperty (extend True [] [JObj this_options,
       JObj [(''headers'', JObj inner)]]) ''headers'' = JObj hs"
  by (simp add: extend_two getProperty_extend_deep1
      props_JObj layer_def)

lemma at_path_descriptor_headers:
  "at_path (descriptor op getSdkHeaders this_options ps) [''defaultOptions'', ''headers'', k] =
     layer (layer JUndefined (getProperty (plain (getProperty this_options ''headers'')) k))
       (layer (layer (getProperty (getSdkHeaders ''language_translator'' ''v3'' (operationId op)) k)
                (getProperty (fixed_headers op) k))
          (getProperty (props (getProperty ps ''headers'')) k))"
proof -
  obtain hs where hs: "getProperty (extend True [] [JObj this_options,
       JObj [(''headers'', JObj (extend True
          (getSdkHeaders ''language_translator'' ''v3'' (operationId op))
          [JObj (fixed_headers op), getProperty ps ''headers'']))]]) ''headers'' = JObj hs"
    using descriptor_headers_obj by blast
  show ?thesis
    using descriptor_headers[OF hs, of k] hs
    by (simp add: descriptor_def props_JObj)
qed



section \<open>The constructor\<close>







section \<open>Properties of the methods on a store\<close>

lemma extend_props_source: "extend deep t (JObj (props s) # ss) = extend deep t (s # ss)"
  by (simp add: extend_def props_JObj)

text \<open>The body on a store does what the body on values does, and writes new objects only.\<close>

lemma body_at_did:
  assumes "this_ref < top h"
  shows "snd (body_at op (new_object g) this_ref n h) =
         request_of op g (props (cell h this_ref)) (props (cell h n))"
proof -
  have "extend True [] [cell h this_ref, X] = extend True [] [JObj (props (cell h this_ref)), X]"
    for X
    by (simp add: extend_props_source)
  then show ?thesis
    using assms
    by (simp add: body_at_def new_object_def alloc_def assign_def request_of_shape
        descriptor_def Let_def plain_JObj)
qed

lemma body_at_frame:
  "b < top h \<Longrightarrow> cell (fst (body_at op (new_object g) this_ref n h)) b = cell h b"
  by (simp add: body_at_def new_object_def alloc_def assign_def Let_def)

lemma body_at_top:
  "top h \<le> top (fst (body_at op (new_object g) this_ref n h))"
  by (simp add: body_at_def new_object_def alloc_def assign_def Let_def)

lemma allocated_deref:
  "allocated h params \<Longrightarrow>
   deref (Heap ((cell h)(top h := v)) (Suc (top h))) params = deref h params"
  by (cases params) (simp_all add: allocated_def deref_def)

lemma method_at_did:
  assumes "this_ref < top h" and "allocated h params"
  shows "did (method_at op (new_object g) this_ref params callback h) =
         outcome_for op g (props (cell h this_ref)) (deref h params)"
proof -
  note snap = request_of_reads[of "extend False [] [deref h params]" "deref h params" op g
      "props (cell h this_ref)", OF getProperty_snapshot]
  have fn: "request_of op g (props (cell h this_ref)) [] =
      outcome_for op g (props (cell h this_ref)) (deref h params)" if "is_function params"
  proof -
    have "deref h params = params"
      using that by (cases params) (simp_all add: is_function_def deref_def)
    then show ?thesis
      using that request_of_reads[of "[]" params op g "props (cell h this_ref)"]
      by (simp add: lacking_function)
  qed
  show ?thesis
    using assms snap fn
    by (simp add: method_at_def alloc_def Let_def body_at_did allocated_deref props_JObj
        split_def)
qed

lemma method_at_frame:
  "b < top h \<Longrightarrow>
   cell (heap_after (method_at op (new_object g) this_ref params callback h)) b = cell h b"
  by (simp add: method_at_def alloc_def Let_def body_at_frame split_def)

lemma method_at_top:
  "top h \<le> top (heap_after (method_at op (new_object g) this_ref params callback h))"
proof -
  have "top h \<le> top (fst (body_at op (new_object g) this_ref n
      (Heap c (Suc (top h)))))" for c n
    using body_at_top[of "Heap c (Suc (top h))" op g this_ref n] by simp
  moreover have "top h \<le> top (fst (body_at op (new_object g) this_ref n
      (Heap c (Suc (Suc (top h))))))" for c n
    using body_at_top[of "Heap c (Suc (Suc (top h)))" op g this_ref n] by simp
  ultimately show ?thesis
    by (simp add: method_at_def alloc_def Let_def split_def)
qed

lemma truthy_function: "is_function v \<Longrightarrow> truthy v"
  by (cases v) (simp_all add: is_function_def truthy_def)

lemma method_at_handler:
  "handler (method_at op getSdkHeaders this_ref params callback h) =
     (if callback_first_allowed op \<and> is_function params \<and> \<not> truthy callback then Inl params
      else if truthy callback then Inl callback else Inr (top h))"
  by (auto simp: method_at_def alloc_def Let_def split_def truthy_function)

text \<open>The snapshot that the promise's handler keeps reads as the params did at the call.\<close>

lemma method_at_snapshot:
  assumes "allocated h params" and "\<not> truthy callback"
    and "\<not> (callback_first_allowed op \<and> is_function params)"
  shows "getProperty (props (cell
           (heap_after (method_at op (new_object g) this_ref params callback h)) (top h))) k =
         getProperty (props (deref h params)) k"
proof -
  have "cell (fst (body_at op (new_object g) this_ref n (Heap c (Suc (Suc (top h)))))) (top h) =
      c (top h)" for c n
    using body_at_frame[of "top h" "Heap c (Suc (Suc (top h)))" op g this_ref n] by simp
  moreover have "(callback_first_allowed op \<and> is_function params \<and> \<not> truthy callback) = False"
    using assms(3) by blast
  ultimately show ?thesis
    using assms(1,2)
    by (auto simp: method_at_def alloc_def Let_def split_def props_JObj getProperty_snapshot)
qed

section \<open>What a descriptor refers to\<close>

lemma refs_getProperty: "refs (getProperty ps k) \<subseteq> refs_props ps"
  by (induction ps) (auto split: if_splits)

lemma refs_setProperty: "refs_props (setProperty ps k v) \<subseteq> refs_props ps \<union> refs v"
  by (induction ps) (auto split: if_splits)

lemma refs_indexed: "refs_props (indexed i xs) = refs_items xs"
  by (induction xs arbitrary: i) auto

lemma refs_items_chars: "refs_items (map (\<lambda>c. JStr [c]) s) = {}"
  by (induction s) auto

lemma refs_props_props: "refs_props (props v) \<subseteq> refs v"
  by (cases v) (simp_all add: props_def refs_indexed refs_items_chars)

lemma refs_plain: "refs_props (plain v) \<subseteq> refs v"
  by (cases v) (simp_all add: plain_def)

lemma refs_items_items: "refs_items (items v) \<subseteq> refs v"
  by (cases v) (simp_all add: items_def)

text \<open>\<^verbatim>\<open>extend\<close> brings in no reference that its target and sources do not hold.\<close>

lemma refs_extend_mutual:
  "refs (merge_value src copy) \<subseteq> refs src \<union> refs copy"
  "refs_props (extend_names deep target options names)
     \<subseteq> refs_props target \<union> refs_props options"
  "refs_items (extend_items titems xs) \<subseteq> refs_items titems \<union> refs_items xs"
proof (induction src copy and deep target options names and titems xs
    rule: merge_value_extend_names_extend_items.induct)
  case (1 src copy)
  show ?case
  proof (cases copy)
    case (JObj ps)
    with 1(2)[OF JObj] refs_plain[of src] show ?thesis by auto
  next
    case (JArr ys)
    with 1(1)[OF JArr] refs_items_items[of src] show ?thesis by auto
  qed simp_all
next
  case (2 deep target options)
  show ?case by simp
next
  case (3 deep target options name names)
  let ?t = "if getProperty options name = JUndefined then target
        else setProperty target name
               (if deep then merge_value (getProperty target name) (getProperty options name)
                else getProperty options name)"
  have "refs_props ?t \<subseteq> refs_props target \<union> refs_props options"
  proof (cases "getProperty options name = JUndefined")
    case True
    then show ?thesis by simp
  next
    case False
    show ?thesis
    proof (cases deep)
      case True
      with False 3(1)
        refs_setProperty[of target name
          "merge_value (getProperty target name) (getProperty options name)"]
        refs_getProperty[of target name] refs_getProperty[of options name]
      show ?thesis by (auto simp del: merge_value.simps)
    next
      case shallow: False
      with False refs_setProperty[of target name "getProperty options name"]
        refs_getProperty[of options name]
      show ?thesis by (auto simp del: merge_value.simps)
    qed
  qed
  with 3(2) show ?case by (auto simp del: merge_value.simps)
next
  case (4 target)
  show ?case by simp
next
  case (5 copy xs)
  then show ?case by (auto simp del: merge_value.simps split: list.splits)
next
  case (6 src target copy xs)
  then show ?case by (auto simp del: merge_value.simps)
qed

lemma refs_extend: "refs_props (extend deep t srcs) \<subseteq> refs_props t \<union> refs_items srcs"
proof (induction srcs arbitrary: t)
  case Nil
  then show ?case by (simp add: extend_def)
next
  case (Cons s srcs)
  have "extend deep t (s # srcs) =
      extend deep (extend_names deep t (props s) (ownKeys (props s))) srcs"
    by (simp add: extend_def)
  with Cons[of "extend_names deep t (props s) (ownKeys (props s))"]
    refs_extend_mutual(2)[of deep t "props s" "ownKeys (props s)"] refs_props_props[of s]
  show ?case by auto
qed

lemma notin_getProperty: "a \<notin> refs_props ps \<Longrightarrow> a \<notin> refs (getProperty ps k)"
  using refs_getProperty by blast

lemma notin_props: "a \<notin> refs v \<Longrightarrow> a \<notin> refs_props (props v)"
  using refs_props_props by blast

lemma notin_extend:
  "a \<notin> refs_props t \<Longrightarrow> a \<notin> refs_items srcs \<Longrightarrow> a \<notin> refs_props (extend deep t srcs)"
  using refs_extend by blast

lemma notin_fixed_headers: "a \<notin> refs_props (fixed_headers op)"
  by (cases op) simp_all

lemma notin_options_literal:
  "a \<notin> refs_props ps \<Longrightarrow> a \<notin> refs (options_literal op ps)"
  using notin_getProperty[of a ps]
  by (cases op) simp_all

text \<open>
  A descriptor refers to nothing but what the params, the client's options and the
  diagnostic headers refer to.
\<close>

lemma descriptor_refs:
  assumes "a \<notin> refs_props ps" and "a \<notin> refs_props this_options"
    and "a \<notin> refs_props (getSdkHeaders ''language_translator'' ''v3'' (operationId op))"
  shows "a \<notin> refs (descriptor op getSdkHeaders this_options ps)"
proof -
  have "a \<notin> refs_props
      (extend True (getSdkHeaders ''language_translator'' ''v3'' (operationId op))
        [JObj (fixed_headers op), getProperty ps ''headers''])"
    using assms(1,3) notin_fixed_headers[of a op] notin_getProperty[of a ps "''headers''"]
    by (intro notin_extend) simp_all
  then have "a \<notin> refs_props (extend True [] [JObj this_options, JObj [(''headers'',
      JObj (extend True (getSdkHeaders ''language_translator'' ''v3'' (operationId op))
        [JObj (fixed_headers op), getProperty ps ''headers'']))]])"
    using assms(2) by (intro notin_extend) simp_all
  then show ?thesis
    using notin_options_literal[OF assms(1), of op]
    by (simp add: descriptor_def)
qed

lemma outcome_for_refs:
  assumes "outcome_for op getSdkHeaders this_options params = Sent d"
    and "a \<notin> refs params" and "a \<notin> refs_props this_options"
    and "a \<notin> refs_props (getSdkHeaders ''language_translator'' ''v3'' (operationId op))"
  shows "a \<notin> refs d"
  using assms descriptor_refs[of a "props params" this_options getSdkHeaders op]
    notin_props[of a params]
  by (auto simp: outcome_for_def split: if_splits)

text \<open>
  Two stores that differ at \<open>a\<close> alone resolve alike every value that does not refer
  to \<open>a\<close>, however deep, when no object of the store refers to \<open>a\<close>.
\<close>

lemma resolve_agree:
  assumes "\<forall>b. b \<noteq> a \<longrightarrow> s1 b = s0 b" and "\<forall>b. a \<notin> refs (s0 b)"
  shows "a \<notin> refs v \<Longrightarrow> resolve n s1 v = resolve n s0 v"
proof (induction n arbitrary: v)
  case 0
  have "a \<notin> refs w \<Longrightarrow> resolve 0 s1 w = resolve 0 s0 w"
    and "a \<notin> refs_items xs \<Longrightarrow> resolve_items 0 s1 xs = resolve_items 0 s0 xs"
    and "a \<notin> refs_props ps \<Longrightarrow> resolve_props 0 s1 ps = resolve_props 0 s0 ps"
    for w xs ps
    by (induction w and xs and ps rule: refs_refs_items_refs_props.induct) auto
  with 0 show ?case
    by blast
next
  case (Suc n)
  have "a \<notin> refs w \<Longrightarrow> resolve (Suc n) s1 w = resolve (Suc n) s0 w"
    and "a \<notin> refs_items xs \<Longrightarrow> resolve_items (Suc n) s1 xs = resolve_items (Suc n) s0 xs"
    and "a \<notin> refs_props ps \<Longrightarrow> resolve_props (Suc n) s1 ps = resolve_props (Suc n) s0 ps"
    for w xs ps
  proof (induction w and xs and ps rule: refs_refs_items_refs_props.induct)
    case (1 b)
    then have "b \<noteq> a"
      by simp
    with assms(1) have "s1 b = s0 b"
      by simp
    moreover have "a \<notin> refs (s0 b)"
      using assms(2) by simp
    ultimately show ?case
      using Suc.IH[of "s0 b"] by simp
  qed auto
  with Suc.prems show ?case
    by blast
qed

lemma getProperty_resolve_props:
  "getProperty (resolve_props n s ps) k = resolve n s (getProperty ps k)"
  by (induction ps) auto

text \<open>No object that a call leaves in the store refers to an address that none did before.\<close>

lemma body_at_cells_refs:
  assumes "\<forall>b. a \<notin> refs (cell h b)"
    and "a \<notin> refs_props (g ''language_translator'' ''v3'' (operationId op))"
  shows "a \<notin> refs (cell (fst (body_at op (new_object g) this_ref n h)) b)"
proof -
  have "a \<notin> refs (getProperty (props (cell h n)) ''headers'')"
    using assms(1) by (intro notin_getProperty notin_props) simp
  then have "a \<notin> refs_props
      (extend True (g ''language_translator'' ''v3'' (operationId op))
        [JObj (fixed_headers op), getProperty (props (cell h n)) ''headers''])"
    using assms(2) notin_fixed_headers[of a op] by (intro notin_extend) simp_all
  then show ?thesis
    using assms(1)
    by (simp add: body_at_def new_object_def alloc_def assign_def Let_def plain_JObj)
qed

lemma method_at_cells_refs:
  assumes "\<forall>b. a \<notin> refs (cell h b)"
    and "a \<notin> refs_props (g ''language_translator'' ''v3'' (operationId op))"
    and "a \<notin> refs (deref h params)" and "allocated h params"
  shows "a \<notin> refs (cell (heap_after (method_at op (new_object g) this_ref params callback h)) b)"
proof -
  have snap: "a \<notin> refs_props (extend False [] [deref h params])"
    using assms(3) by (intro notin_extend) simp_all
  have one: "\<forall>b. a \<notin> refs (cell (Heap ((cell h)(top h := JObj ps)) (Suc (top h))) b)"
    if "a \<notin> refs_props ps" for ps
    using assms(1) that by simp
  have two: "\<forall>b. a \<notin> refs (cell (Heap ((cell h)(top h := JObj ps, Suc (top h) := JObj qs))
      (Suc (Suc (top h)))) b)"
    if "a \<notin> refs_props ps" "a \<notin> refs_props qs" for ps qs
    using assms(1) that by simp
  have b1: "a \<notin> refs (cell (fst (body_at op (new_object g) this_ref n
      (Heap ((cell h)(top h := JObj ps)) (Suc (top h))))) b)"
    if "a \<notin> refs_props ps" for ps n
    using one[OF that] assms(2) by (rule body_at_cells_refs)
  have b2: "a \<notin> refs (cell (fst (body_at op (new_object g) this_ref n
      (Heap ((cell h)(top h := JObj ps, Suc (top h) := JObj qs)) (Suc (Suc (top h)))))) b)"
    if "a \<notin> refs_props ps" "a \<notin> refs_props qs" for ps qs n
    using two[OF that] assms(2) by (rule body_at_cells_refs)
  show ?thesis
    using snap assms(4)
    by (simp add: method_at_def alloc_def Let_def split_def allocated_deref b1 b2)
qed

lemma new_Promise_transport:
  "(\<And>d. out = Sent d \<Longrightarrow> tr d = tr' d) \<Longrightarrow> new_Promise tr out ps = new_Promise tr' out ps"
  by (cases out) (simp_all add: new_Promise_def completion_def)

lemma resolve_0:
  "resolve 0 s v = v" "resolve_items 0 s xs = xs" "resolve_props 0 s ps = ps"
  by (induction v and xs and ps rule: refs_refs_items_refs_props.induct) simp_all

text \<open>
  The methods on a store are the methods on values: what the call does, and how it
  completes when the store is left as it is and the transport follows no reference.
\<close>

lemma method_at_invoke:
  assumes "this_ref < top h" and "allocated h params"
    and "is_function (deref h params) \<Longrightarrow> is_function params"
  shows "settle_at createRequest 0
           (heap_after (method_at op (new_object g) this_ref params callback h))
           (method_at op (new_object g) this_ref params callback h) =
         invoke op g createRequest (props (cell h this_ref)) (deref h params) callback"
proof (cases "callback_first_allowed op \<and> is_function params \<and> \<not> truthy callback")
  case True
  then have "deref h params = params"
    by (cases params) (simp_all add: is_function_def deref_def)
  with True assms show ?thesis
    by (simp add: settle_at_def method_at_handler method_at_did invoke_shape)
next
  case False
  show ?thesis
  proof (cases "truthy callback")
    case True
    with False assms show ?thesis
      by (auto simp: settle_at_def method_at_handler method_at_did invoke_shape
          is_function_def deref_def split: jsval.splits)
  next
    case nocb: False
    with False have nf: "\<not> (callback_first_allowed op \<and> is_function params)"
      by simp
    have fn: "is_function (deref h params) = is_function params"
      using assms(3) by (cases params) (auto simp: is_function_def deref_def)
    have "new_Promise createRequest out
        (props (cell (heap_after (method_at op (new_object g) this_ref params callback h))
                  (top h))) =
        new_Promise createRequest out (props (deref h params))" for out
      using method_at_snapshot[OF assms(2) nocb nf, of g this_ref "''return_response''"]
      by (rule new_Promise_reads)
    with False nocb nf assms show ?thesis
      by (auto simp: settle_at_def method_at_handler method_at_did invoke_shape resolve_0 fn)
  qed
qed

section \<open>Claims\<close>

text \<open>
  C1. For every operation that declares required parameters (translate and identify:
  \<^verbatim>\<open>text\<close>; createModel: \<^verbatim>\<open>base_model_id\<close>; deleteModel and getModel:
  \<^verbatim>\<open>model_id\<close>), if a required parameter is absent from the params or bound to an
  undefined or empty value, the validation error naming the missing parameters is handed to
  the completion handler as its first argument, or rejects the returned promise when no
  handler was given, and \<^verbatim>\<open>createRequest\<close> is not invoked.
\<close>

theorem missing_required_is_reported:
  assumes "r \<in> set (requiredParams op)"
    and "isMissing (getProperty (props params) r)"
  shows "invoke op getSdkHeaders createRequest this_options params callback =
           (if truthy callback
            then Completes callback
                   (Reported (JMissing
                      [n \<leftarrow> requiredParams op. isMissing (getProperty (props params) n)]))
            else Promises
                   (Reported (JMissing
                      [n \<leftarrow> requiredParams op. isMissing (getProperty (props params) n)]))
                   (Rejected (JMissing
                      [n \<leftarrow> requiredParams op. isMissing (getProperty (props params) n)])))
         \<and> r \<in> set [n \<leftarrow> requiredParams op. isMissing (getProperty (props params) n)]
         \<and> request (invoke op getSdkHeaders createRequest this_options params callback) = None"
proof (cases op)
  case Translate
  with assms show ?thesis
    by (simp add: translate_def translate_request_def getMissingParams_def getProperty_snapshot
        Let_def truthy_def new_Promise_def completion_def request_def)
next
  case Identify
  with assms show ?thesis
    by (simp add: identify_def identify_request_def getMissingParams_def getProperty_snapshot
        Let_def truthy_def new_Promise_def completion_def request_def)
next
  case ListIdentifiableLanguages
  with assms show ?thesis by simp
next
  case CreateModel
  with assms show ?thesis
    by (simp add: createModel_def createModel_request_def getMissingParams_def
        getProperty_snapshot Let_def truthy_def new_Promise_def completion_def request_def)
next
  case DeleteModel
  with assms show ?thesis
    by (simp add: deleteModel_def deleteModel_request_def getMissingParams_def
        getProperty_snapshot Let_def truthy_def new_Promise_def completion_def request_def)
next
  case GetModel
  with assms show ?thesis
    by (simp add: getModel_def getModel_request_def getMissingParams_def
        getProperty_snapshot Let_def truthy_def new_Promise_def completion_def request_def)
next
  case ListModels
  with assms show ?thesis by simp
qed

text \<open>
  \<^verbatim>\<open>translate({source: 'en', text: ''})\<close> without a callback: the promise is rejected
  with the error that names \<^verbatim>\<open>text\<close>, and nothing is sent.
\<close>

theorem missing_required_is_reported_witness:
  "translate (\<lambda>_ _ _. []) (\<lambda>_. None) []
     (JObj [(''source'', JStr ''en''), (''text'', JStr [])]) JUndefined =
     Promises (Reported (JMissing [''text''])) (Rejected (JMissing [''text'']))
   \<and> request (translate (\<lambda>_ _ _. []) (\<lambda>_. None) []
        (JObj [(''source'', JStr ''en''), (''text'', JStr [])]) JUndefined) = None"
  using missing_required_is_reported [of "''text''" Translate
      "JObj [(''source'', JStr ''en''), (''text'', JStr [])]" "\<lambda>_ _ _. []" "\<lambda>_. None" "[]"
      JUndefined]
  by (simp add: props_def isMissing_def truthy_def request_def)




text \<open>
  C3, as the code has it. For every call to translate whose params hold \<^verbatim>\<open>text\<close>,
  \<^verbatim>\<open>source\<close> and \<^verbatim>\<open>target\<close> but no \<^verbatim>\<open>model_id\<close>, the request descriptor is a
  POST to \<^verbatim>\<open>/v3/translate\<close> whose body object has the four declared keys \<^verbatim>\<open>text\<close>,
  \<^verbatim>\<open>model_id\<close>, \<^verbatim>\<open>source\<close>, \<^verbatim>\<open>target\<close>: the absent \<^verbatim>\<open>model_id\<close> is in the
  object, bound to \<^verbatim>\<open>undefined\<close>, and the entries that hold a value are exactly
  \<^verbatim>\<open>text\<close>, \<^verbatim>\<open>source\<close> and \<^verbatim>\<open>target\<close> with the values supplied.
\<close>

theorem translate_body:
  assumes "\<not> isMissing (getProperty (props params) ''text'')"
    and "getProperty (props params) ''model_id'' = JUndefined"
    and "getProperty (props params) ''source'' \<noteq> JUndefined"
    and "getProperty (props params) ''target'' \<noteq> JUndefined"
  shows "map_option (\<lambda>p. at_path p [''options''])
           (request (translate getSdkHeaders createRequest this_options params callback)) =
         Some (JObj [(''url'', JStr ''/v3/translate''), (''method'', JStr ''POST''),
                 (''body'', JObj [(''text'', getProperty (props params) ''text''),
                                  (''model_id'', JUndefined),
                                  (''source'', getProperty (props params) ''source''),
                                  (''target'', getProperty (props params) ''target'')])])
       \<and> defined_entries [(''text'', getProperty (props params) ''text''),
                            (''model_id'', JUndefined),
                            (''source'', getProperty (props params) ''source''),
                            (''target'', getProperty (props params) ''target'')] =
           [(''text'', getProperty (props params) ''text''),
            (''source'', getProperty (props params) ''source''),
            (''target'', getProperty (props params) ''target'')]"
  using assms
  by (simp add: translate_def translate_request_def request_Completes request_new_Promise
      getMissingParams_def isMissing_def truthy_def props_def getProperty_snapshot Let_def
      defined_entries_def)

text \<open>The scenario of the spec, \<^verbatim>\<open>translate({text: ['hello'], source: 'en', target: 'es'})\<close>.\<close>

theorem translate_body_witness:
  "map_option (\<lambda>p. at_path p [''options''])
     (request (translate (\<lambda>_ _ _. []) (\<lambda>_. None) []
        (JObj [(''text'', JArr [JStr ''hello'']), (''source'', JStr ''en''),
               (''target'', JStr ''es'')]) JUndefined)) =
   Some (JObj [(''url'', JStr ''/v3/translate''), (''method'', JStr ''POST''),
           (''body'', JObj [(''text'', JArr [JStr ''hello'']), (''model_id'', JUndefined),
                            (''source'', JStr ''en''), (''target'', JStr ''es'')])])"
  using translate_body [of "JObj [(''text'', JArr [JStr ''hello'']), (''source'', JStr ''en''),
      (''target'', JStr ''es'')]" "\<lambda>_ _ _. []" "\<lambda>_. None" "[]" JUndefined]
  by (simp add: props_def isMissing_def)

text \<open>
  C3 as stated fails: in that scenario the body object does contain a \<^verbatim>\<open>model_id\<close>
  field.
\<close>

theorem translate_body_counterexample:
  "map_option (\<lambda>p. map fst (props (at_path p [''options'', ''body''])))
     (request (translate (\<lambda>_ _ _. []) (\<lambda>_. None) []
        (JObj [(''text'', JArr [JStr ''hello'']), (''source'', JStr ''en''),
               (''target'', JStr ''es'')]) (JFn 0)))
   = Some [''text'', ''model_id'', ''source'', ''target'']"
  by (simp add: translate_def translate_request_def request_Completes getMissingParams_def
      isMissing_def truthy_def props_def getProperty_snapshot Let_def)

text \<open>
  C4, as the code has it. For every call to createModel that passes validation, the form
  data of the request descriptor holds an entry for each of the two declared form fields,
  \<^verbatim>\<open>forced_glossary\<close> and \<^verbatim>\<open>parallel_corpus\<close>, whether or not the parameter is
  defined; each entry carries the content type \<^verbatim>\<open>application/octet-stream\<close> and, as its
  data, the value of the parameter, which is \<^verbatim>\<open>undefined\<close> when the parameter is.
\<close>

theorem createModel_formData:
  assumes "\<not> isMissing (getProperty (props params) ''base_model_id'')"
  shows "map_option (\<lambda>p. at_path p [''options'', ''formData''])
           (request (createModel getSdkHeaders createRequest this_options params callback)) =
         Some (JObj
           [(''forced_glossary'',
               JObj [(''data'', getProperty (props params) ''forced_glossary''),
                     (''contentType'', JStr ''application/octet-stream'')]),
            (''parallel_corpus'',
               JObj [(''data'', getProperty (props params) ''parallel_corpus''),
                     (''contentType'', JStr ''application/octet-stream'')])])"
  using assms
  by (simp add: createModel_def createModel_request_def request_Completes request_new_Promise
      getMissingParams_def isMissing_def truthy_def props_def getProperty_snapshot Let_def)

text \<open>A call with a glossary and no corpus.\<close>

theorem createModel_formData_witness:
  "map_option (\<lambda>p. at_path p [''options'', ''formData''])
     (request (createModel (\<lambda>_ _ _. []) (\<lambda>_. None) []
        (JObj [(''base_model_id'', JStr ''en-es''), (''forced_glossary'', JRef 7)]) JUndefined))
   = Some (JObj
       [(''forced_glossary'',
           JObj [(''data'', JRef 7), (''contentType'', JStr ''application/octet-stream'')]),
        (''parallel_corpus'',
           JObj [(''data'', JUndefined), (''contentType'', JStr ''application/octet-stream'')])])"
  using createModel_formData [of "JObj [(''base_model_id'', JStr ''en-es''),
      (''forced_glossary'', JRef 7)]" "\<lambda>_ _ _. []" "\<lambda>_. None" "[]" JUndefined]
  by (simp add: props_def isMissing_def)

text \<open>
  C4 as stated fails: \<^verbatim>\<open>createModel({base_model_id: 'en-es'})\<close> gives neither file, and
  the form data holds both entries all the same.
\<close>

theorem createModel_formData_counterexample:
  "map_option (\<lambda>p. at_path p [''options'', ''formData''])
     (request (createModel (\<lambda>_ _ _. []) (\<lambda>_. None) []
        (JObj [(''base_model_id'', JStr ''en-es'')]) (JFn 0)))
   = Some (JObj
       [(''forced_glossary'',
           JObj [(''data'', JUndefined), (''contentType'', JStr ''application/octet-stream'')]),
        (''parallel_corpus'',
           JObj [(''data'', JUndefined), (''contentType'', JStr ''application/octet-stream'')])])"
  by (simp add: createModel_def createModel_request_def request_Completes getMissingParams_def
      isMissing_def truthy_def props_def getProperty_snapshot Let_def)




text \<open>
  C6. For every call to listModels, the query mapping of the request descriptor binds
  \<^verbatim>\<open>source\<close>, \<^verbatim>\<open>target\<close> and \<^verbatim>\<open>default\<close> to the values of
  \<^verbatim>\<open>params.source\<close>, \<^verbatim>\<open>params.target\<close> and \<^verbatim>\<open>params.default_models\<close> as they
  are. In the assembled query the \<^verbatim>\<open>default\<close> entry has the value of
  \<^verbatim>\<open>params.default_models\<close>, so an explicit \<^verbatim>\<open>false\<close> is sent as the boolean
  \<^verbatim>\<open>false\<close>, and each of the three entries is left out exactly when its parameter is
  undefined.
\<close>

theorem listModels_query:
  "map_option (\<lambda>p. at_path p [''options'', ''qs''])
     (request (listModels getSdkHeaders createRequest this_options params callback)) =
   Some (JObj [(''source'', getProperty (props params) ''source''),
               (''target'', getProperty (props params) ''target''),
               (''default'', getProperty (props params) ''default_models'')])
   \<and> getProperty
         (assemble_query (JObj [(''source'', getProperty (props params) ''source''),
                                (''target'', getProperty (props params) ''target''),
                                (''default'', getProperty (props params) ''default_models'')]))
         ''default'' = getProperty (props params) ''default_models''
   \<and> (''default'' \<in> fst ` set
         (assemble_query (JObj [(''source'', getProperty (props params) ''source''),
                                (''target'', getProperty (props params) ''target''),
                                (''default'', getProperty (props params) ''default_models'')]))
        \<longleftrightarrow> getProperty (props params) ''default_models'' \<noteq> JUndefined)
   \<and> (''source'' \<in> fst ` set
         (assemble_query (JObj [(''source'', getProperty (props params) ''source''),
                                (''target'', getProperty (props params) ''target''),
                                (''default'', getProperty (props params) ''default_models'')]))
        \<longleftrightarrow> getProperty (props params) ''source'' \<noteq> JUndefined)
   \<and> (''target'' \<in> fst ` set
         (assemble_query (JObj [(''source'', getProperty (props params) ''source''),
                                (''target'', getProperty (props params) ''target''),
                                (''default'', getProperty (props params) ''default_models'')]))
        \<longleftrightarrow> getProperty (props params) ''target'' \<noteq> JUndefined)"
  by (auto simp: listModels_def listModels_request_def request_Completes request_new_Promise
      props_def getProperty_snapshot Let_def assemble_query_def is_function_def
      split: jsval.splits)

text \<open>
  \<^verbatim>\<open>listModels({default_models: false})\<close> sends \<^verbatim>\<open>default=false\<close> and nothing else;
  \<^verbatim>\<open>listModels({})\<close> sends no entry.
\<close>

theorem listModels_query_witness:
  "map_option (\<lambda>p. assemble_query (at_path p [''options'', ''qs'']))
     (request (listModels (\<lambda>_ _ _. []) (\<lambda>_. None) []
        (JObj [(''default_models'', JBool False)]) (JFn 0)))
   = Some [(''default'', JBool False)]
   \<and> map_option (\<lambda>p. assemble_query (at_path p [''options'', ''qs'']))
     (request (listModels (\<lambda>_ _ _. []) (\<lambda>_. None) [] (JObj []) (JFn 0)))
   = Some []"
proof -
  have "map_option (\<lambda>p. at_path p [''options'', ''qs''])
     (request (listModels (\<lambda>_ _ _. []) (\<lambda>_. None) []
        (JObj [(''default_models'', JBool False)]) (JFn 0)))
     = Some (JObj [(''source'', JUndefined), (''target'', JUndefined),
                   (''default'', JBool False)])"
    using listModels_query [of "\<lambda>_ _ _. []" "\<lambda>_. None" "[]"
        "JObj [(''default_models'', JBool False)]" "JFn 0"]
    by (simp add: props_def)
  moreover have "map_option (\<lambda>p. at_path p [''options'', ''qs''])
     (request (listModels (\<lambda>_ _ _. []) (\<lambda>_. None) [] (JObj []) (JFn 0)))
     = Some (JObj [(''source'', JUndefined), (''target'', JUndefined),
                   (''default'', JUndefined)])"
    using listModels_query [of "\<lambda>_ _ _. []" "\<lambda>_. None" "[]" "JObj []" "JFn 0"]
    by (simp add: props_def)
  ultimately show ?thesis
    by (auto simp: assemble_query_def props_def)
qed

text \<open>
  C7. For every operation called without a callback (for listIdentifiableLanguages and
  listModels: and without a function in the place of the params), the method returns a
  promise. When a required parameter is missing, nothing is sent and the promise is
  rejected with the validation error. Otherwise the request descriptor of the operation,
  built from the params, is handed to \<^verbatim>\<open>createRequest\<close>, and the promise is rejected
  with the error when the transport reports one, is resolved with the transport's response
  when \<^verbatim>\<open>params.return_response\<close> is truthy, and is resolved with the body otherwise;
  it stays pending for as long as the transport does not complete.
\<close>

theorem promise_settles:
  assumes "\<not> truthy callback"
    and "op = ListIdentifiableLanguages \<or> op = ListModels \<Longrightarrow> \<not> is_function params"
  shows "invoke op getSdkHeaders createRequest this_options params callback =
           (if lacking op params = []
            then Promises (Sent (descriptor op getSdkHeaders this_options (props params)))
                   (case createRequest (descriptor op getSdkHeaders this_options (props params)) of
                      None \<Rightarrow> Pending
                    | Some (err, bod, res) \<Rightarrow>
                        if truthy err then Rejected err
                        else if truthy (getProperty (props params) ''return_response'')
                        then Resolved res
                        else Resolved bod)
            else Promises (Reported (JMissing (lacking op params)))
                   (Rejected (JMissing (lacking op params))))"
  using assms
  by (auto simp: invoke_shape callback_first_allowed_def outcome_for_def new_Promise_def
      completion_def truthy_def)

text \<open>
  \<^verbatim>\<open>translate({text: 'hello', return_response: true})\<close>: the descriptor is sent, and the
  promise is resolved with the response when the transport succeeds, rejected with the
  error when it fails. \<^verbatim>\<open>translate({})\<close> is rejected and nothing is sent.
\<close>

theorem promise_settles_witness:
  "translate (\<lambda>_ _ _. []) (\<lambda>_. Some (JNull, JStr ''body'', JStr ''response'')) []
      (JObj [(''text'', JStr ''hello''), (''return_response'', JBool True)]) JUndefined
    = Promises
        (Sent (descriptor Translate (\<lambda>_ _ _. []) []
           [(''text'', JStr ''hello''), (''return_response'', JBool True)]))
        (Resolved (JStr ''response''))
   \<and> translate (\<lambda>_ _ _. []) (\<lambda>_. Some (JError ''down'', JUndefined, JUndefined)) []
      (JObj [(''text'', JStr ''hello''), (''return_response'', JBool True)]) JUndefined
    = Promises
        (Sent (descriptor Translate (\<lambda>_ _ _. []) []
           [(''text'', JStr ''hello''), (''return_response'', JBool True)]))
        (Rejected (JError ''down''))
   \<and> translate (\<lambda>_ _ _. []) (\<lambda>_. Some (JNull, JStr ''body'', JStr ''response'')) []
      (JObj []) JUndefined
    = Promises (Reported (JMissing [''text''])) (Rejected (JMissing [''text'']))"
  using promise_settles [of JUndefined Translate
      "JObj [(''text'', JStr ''hello''), (''return_response'', JBool True)]"
      "\<lambda>_ _ _. []" "\<lambda>_. Some (JNull, JStr ''body'', JStr ''response'')" "[]"]
    promise_settles [of JUndefined Translate
      "JObj [(''text'', JStr ''hello''), (''return_response'', JBool True)]"
      "\<lambda>_ _ _. []" "\<lambda>_. Some (JError ''down'', JUndefined, JUndefined)" "[]"]
    promise_settles [of JUndefined Translate "JObj []"
      "\<lambda>_ _ _. []" "\<lambda>_. Some (JNull, JStr ''body'', JStr ''response'')" "[]"]
  by (simp add: truthy_def props_def lacking_def isMissing_def)

text \<open>
  C8, as the code has it. Every operation takes a snapshot of the caller's params object at
  entry, a new object with the entries of the params, validates it and builds the request
  descriptor from it before it returns; the promise's handler reads
  \<^verbatim>\<open>return_response\<close> from the snapshot. So whatever the caller assigns to the params
  object itself after the call, with a callback or without one, changes neither the
  validation outcome, nor what the transport finds in the descriptor, nor how the call
  completes. The snapshot is shallow: this is stated for a later store that differs from
  the one the call left at the params object alone.
\<close>

theorem mutation_after_call:
  assumes "a < top h" and "this_ref < top h"
    and "\<forall>b. a \<notin> refs (cell h b)"
    and "a \<notin> refs_props (g ''language_translator'' ''v3'' (operationId op))"
    and "\<forall>b. b \<noteq> a \<longrightarrow>
           cell later b =
           cell (heap_after (method_at op (new_object g) this_ref (JRef a) callback h)) b"
  shows "did (method_at op (new_object g) this_ref (JRef a) callback h) =
           outcome_for op g (props (cell h this_ref)) (cell h a)
         \<and> transport_reads depth later
             (method_at op (new_object g) this_ref (JRef a) callback h) =
           transport_reads depth
             (heap_after (method_at op (new_object g) this_ref (JRef a) callback h))
             (method_at op (new_object g) this_ref (JRef a) callback h)
         \<and> settle_at createRequest depth later
             (method_at op (new_object g) this_ref (JRef a) callback h) =
           settle_at createRequest depth
             (heap_after (method_at op (new_object g) this_ref (JRef a) callback h))
             (method_at op (new_object g) this_ref (JRef a) callback h)"
proof -
  let ?c = "method_at op (new_object g) this_ref (JRef a) callback h"
  have al: "allocated h (JRef a)"
    using assms(1) by (simp add: allocated_def)
  have did: "did ?c = outcome_for op g (props (cell h this_ref)) (cell h a)"
    using method_at_did[OF assms(2) al, of op g callback] by (simp add: deref_def)
  have cells: "\<forall>b. a \<notin> refs (cell (heap_after ?c) b)"
    using method_at_cells_refs[of a h g op "JRef a" this_ref callback] assms(3,4) al
    by (simp add: deref_def)
  have same: "resolve depth (cell later) d = resolve depth (cell (heap_after ?c)) d"
    if "did ?c = Sent d" for d
  proof -
    have "a \<notin> refs d"
      using that did assms(3,4) notin_props[of a "cell h this_ref"]
        outcome_for_refs[of op g "props (cell h this_ref)" "cell h a" d a]
      by simp
    then show ?thesis
      using resolve_agree[OF assms(5) cells] by simp
  qed
  have reads: "transport_reads depth later ?c = transport_reads depth (heap_after ?c) ?c"
    using same by (simp add: transport_reads_def split: outcome.splits)
  have "top h \<noteq> a"
    using assms(1) by simp
  then have "cell later (top h) = cell (heap_after ?c) (top h)"
    using assms(5) by simp
  moreover have "new_Promise (\<lambda>p. createRequest (resolve depth (cell later) p)) (did ?c) ps =
      new_Promise (\<lambda>p. createRequest (resolve depth (cell (heap_after ?c)) p)) (did ?c) ps"
    for ps
    using same by (intro new_Promise_transport) simp
  ultimately have "settle_at createRequest depth later ?c =
      settle_at createRequest depth (heap_after ?c) ?c"
    by (simp add: settle_at_def method_at_handler)
  with did reads show ?thesis
    by blast
qed

text \<open>
  \<^verbatim>\<open>translate(params)\<close> without a callback, on params \<^verbatim>\<open>{text: 'hola',
  return_response: true}\<close>; afterwards the caller empties the text and clears the flag.
  The descriptor is the one of the params as they were, and the promise is resolved with the
  response.
\<close>

theorem mutation_after_call_witness:
  "did (method_at Translate (new_object (\<lambda>_ _ _. [])) 0 (JRef 1) JUndefined
      (Heap ((\<lambda>_. JUndefined)
         (0 := JObj [(''qs'', JObj [])],
          1 := JObj [(''text'', JStr ''hola''), (''return_response'', JBool True)])) 2)) =
     Sent (descriptor Translate (\<lambda>_ _ _. []) [(''qs'', JObj [])]
       [(''text'', JStr ''hola''), (''return_response'', JBool True)])
   \<and> settle_at (\<lambda>_. Some (JNull, JStr ''body'', JStr ''response'')) 1
       (assign 1 (JObj [(''text'', JStr []), (''return_response'', JBool False)])
          (heap_after (method_at Translate (new_object (\<lambda>_ _ _. [])) 0 (JRef 1) JUndefined
            (Heap ((\<lambda>_. JUndefined)
               (0 := JObj [(''qs'', JObj [])],
                1 := JObj [(''text'', JStr ''hola''), (''return_response'', JBool True)])) 2))))
       (method_at Translate (new_object (\<lambda>_ _ _. [])) 0 (JRef 1) JUndefined
          (Heap ((\<lambda>_. JUndefined)
             (0 := JObj [(''qs'', JObj [])],
              1 := JObj [(''text'', JStr ''hola''), (''return_response'', JBool True)])) 2)) =
     Promises
       (Sent (descriptor Translate (\<lambda>_ _ _. []) [(''qs'', JObj [])]
          [(''text'', JStr ''hola''), (''return_response'', JBool True)]))
       (Resolved (JStr ''response''))"
proof -
  let ?h = "Heap ((\<lambda>_. JUndefined)
     (0 := JObj [(''qs'', JObj [])],
      1 := JObj [(''text'', JStr ''hola''), (''return_response'', JBool True)])) 2"
  let ?c = "method_at Translate (new_object (\<lambda>_ _ _. [])) 0 (JRef 1) JUndefined ?h"
  let ?later = "assign 1 (JObj [(''text'', JStr []), (''return_response'', JBool False)])
     (heap_after ?c)"
  let ?tr = "\<lambda>_::jsval. Some (JNull, JStr ''body'', JStr ''response'')"
  have "\<forall>b. (1::nat) \<notin> refs (cell ?h b)"
    by simp
  moreover have "\<forall>b. b \<noteq> 1 \<longrightarrow> cell ?later b = cell (heap_after ?c) b"
    by (simp add: assign_def)
  ultimately have both:
    "did ?c = outcome_for Translate (\<lambda>_ _ _. []) (props (cell ?h 0)) (cell ?h 1)
     \<and> settle_at ?tr 1 ?later ?c = settle_at ?tr 1 (heap_after ?c) ?c"
    using mutation_after_call [of 1 ?h 0 "\<lambda>_ _ _. []" Translate ?later JUndefined 1 ?tr]
    by simp
  have did: "did ?c = Sent (descriptor Translate (\<lambda>_ _ _. []) [(''qs'', JObj [])]
       [(''text'', JStr ''hola''), (''return_response'', JBool True)])"
    using both by (simp add: outcome_for_def lacking_def isMissing_def props_def)
  have "getProperty (props (cell (heap_after ?c) (top ?h))) ''return_response'' =
      getProperty (props (deref ?h (JRef 1))) ''return_response''"
    by (rule method_at_snapshot) (simp_all add: allocated_def truthy_def is_function_def)
  then have flag: "getProperty (props (cell (heap_after ?c) 2)) ''return_response'' = JBool True"
    by (simp add: deref_def props_def)
  have "settle_at ?tr 1 (heap_after ?c) ?c =
      Promises
        (Sent (descriptor Translate (\<lambda>_ _ _. []) [(''qs'', JObj [])]
           [(''text'', JStr ''hola''), (''return_response'', JBool True)]))
        (Resolved (JStr ''response''))"
    using did flag
    by (simp add: settle_at_def method_at_handler callback_first_allowed_def truthy_def
        new_Promise_def completion_def)
  with both did show ?thesis
    by simp
qed

text \<open>
  C8 as stated fails for what the params refer to: the snapshot copies the entries of the
  params, not the objects they hold. After \<^verbatim>\<open>translate({text: ['hello']}, callback)\<close>
  the descriptor's body shares the array of the caller, and when the caller then replaces
  its item by \<^verbatim>\<open>'adios'\<close>, that is the text the transport finds.
\<close>

theorem mutation_after_call_counterexample:
  "map_option (\<lambda>d. at_path d [''options'', ''body'', ''text''])
     (transport_reads 1
        (heap_after (method_at Translate (new_object (\<lambda>_ _ _. [])) 0 (JRef 1) (JFn 0)
           (Heap ((\<lambda>_. JUndefined)
              (0 := JObj [], 1 := JObj [(''text'', JRef 2)], 2 := JArr [JStr ''hello''])) 3)))
        (method_at Translate (new_object (\<lambda>_ _ _. [])) 0 (JRef 1) (JFn 0)
           (Heap ((\<lambda>_. JUndefined)
              (0 := JObj [], 1 := JObj [(''text'', JRef 2)], 2 := JArr [JStr ''hello''])) 3)))
   = Some (JArr [JStr ''hello''])
   \<and> map_option (\<lambda>d. at_path d [''options'', ''body'', ''text''])
     (transport_reads 1
        (assign 2 (JArr [JStr ''adios''])
           (heap_after (method_at Translate (new_object (\<lambda>_ _ _. [])) 0 (JRef 1) (JFn 0)
              (Heap ((\<lambda>_. JUndefined)
                 (0 := JObj [], 1 := JObj [(''text'', JRef 2)], 2 := JArr [JStr ''hello''])) 3))))
        (method_at Translate (new_object (\<lambda>_ _ _. [])) 0 (JRef 1) (JFn 0)
           (Heap ((\<lambda>_. JUndefined)
              (0 := JObj [], 1 := JObj [(''text'', JRef 2)], 2 := JArr [JStr ''hello''])) 3)))
   = Some (JArr [JStr ''adios''])"
proof -
  let ?h = "Heap ((\<lambda>_. JUndefined)
     (0 := JObj [], 1 := JObj [(''text'', JRef 2)], 2 := JArr [JStr ''hello''])) 3"
  let ?c = "method_at Translate (new_object (\<lambda>_ _ _. [])) 0 (JRef 1) (JFn 0) ?h"
  have "did ?c = outcome_for Translate (\<lambda>_ _ _. []) (props (cell ?h 0)) (deref ?h (JRef 1))"
    by (rule method_at_did) (simp_all add: allocated_def)
  then have did: "did ?c =
      Sent (descriptor Translate (\<lambda>_ _ _. []) [] [(''text'', JRef 2)])"
    by (simp add: outcome_for_def lacking_def isMissing_def props_def deref_def)
  have "cell (heap_after ?c) 2 = cell ?h 2"
    by (rule method_at_frame) simp
  then have cell: "cell (heap_after ?c) 2 = JArr [JStr ''hello'']"
    by simp
  show ?thesis
    using did cell
    by (simp add: transport_reads_def descriptor_def props_def getProperty_resolve_props
        assign_def)
qed

text \<open>
  C9. identify is deterministic in its request shaping. On a client whose
  \<^verbatim>\<open>getSdkHeaders\<close> returns a new object on every call, a call of identify writes no
  object that existed before it, and a second call with the same params, made in the store
  that the first one left, does what the first did: it reports the same validation error or
  hands the transport the same request descriptor. That descriptor is the one of the params
  and the client's options: a POST to \<^verbatim>\<open>/v3/identify\<close> whose body is
  \<^verbatim>\<open>params.text\<close> as it is, with the headers merged from the client's defaults, the
  diagnostic headers, \<^verbatim>\<open>Accept: application/json\<close>,
  \<^verbatim>\<open>Content-Type: text/plain\<close> and the caller's headers.
\<close>

theorem identify_request_determined:
  assumes "this_ref < top h" and "allocated h params"
  shows "did (method_at Identify (new_object g) this_ref params callback'
                (heap_after (method_at Identify (new_object g) this_ref params callback h))) =
           did (method_at Identify (new_object g) this_ref params callback h)
         \<and> (b < top h \<longrightarrow>
              cell (heap_after (method_at Identify (new_object g) this_ref params callback h)) b =
              cell h b)
         \<and> did (method_at Identify (new_object g) this_ref params callback h) =
             (if isMissing (getProperty (props (deref h params)) ''text'')
              then Reported (JMissing [''text''])
              else Sent (descriptor Identify g (props (cell h this_ref))
                           (props (deref h params))))
         \<and> at_path (descriptor Identify g (props (cell h this_ref)) (props (deref h params)))
             [''options''] =
             JObj [(''url'', JStr ''/v3/identify''), (''method'', JStr ''POST''),
                   (''body'', getProperty (props (deref h params)) ''text'')]
         \<and> at_path (descriptor Identify g (props (cell h this_ref)) (props (deref h params)))
             [''defaultOptions'', ''headers'', k] =
             layer (layer JUndefined
                      (getProperty (plain (getProperty (props (cell h this_ref)) ''headers'')) k))
               (layer (layer (getProperty (g ''language_translator'' ''v3'' ''identify'') k)
                         (getProperty [(''Accept'', JStr ''application/json''),
                                       (''Content-Type'', JStr ''text/plain'')] k))
                  (getProperty (props (getProperty (props (deref h params)) ''headers'')) k))"
proof -
  let ?c = "method_at Identify (new_object g) this_ref params callback h"
  have frame: "cell (heap_after ?c) b = cell h b" if "b < top h" for b
    using that by (rule method_at_frame)
  have top: "top h \<le> top (heap_after ?c)"
    by (rule method_at_top)
  have t: "this_ref < top (heap_after ?c)"
    using assms(1) top by simp
  have al: "allocated (heap_after ?c) params"
    using assms(2) top by (cases params) (simp_all add: allocated_def)
  have de: "deref (heap_after ?c) params = deref h params"
    using assms(2) frame by (cases params) (simp_all add: allocated_def deref_def)
  have "did (method_at Identify (new_object g) this_ref params callback' (heap_after ?c)) =
      outcome_for Identify g (props (cell (heap_after ?c) this_ref))
        (deref (heap_after ?c) params)"
    using t al by (rule method_at_did)
  also have "\<dots> = outcome_for Identify g (props (cell h this_ref)) (deref h params)"
    using frame[OF assms(1)] de by simp
  also have "\<dots> = did ?c"
    using assms by (rule method_at_did[symmetric])
  finally have again:
    "did (method_at Identify (new_object g) this_ref params callback' (heap_after ?c)) = did ?c" .
  have did: "did ?c =
      (if isMissing (getProperty (props (deref h params)) ''text'')
       then Reported (JMissing [''text''])
       else Sent (descriptor Identify g (props (cell h this_ref)) (props (deref h params))))"
    using method_at_did[OF assms, of Identify g callback]
    by (simp add: outcome_for_def lacking_def)
  have opts: "at_path (descriptor Identify g (props (cell h this_ref)) (props (deref h params)))
      [''options''] =
      JObj [(''url'', JStr ''/v3/identify''), (''method'', JStr ''POST''),
            (''body'', getProperty (props (deref h params)) ''text'')]"
    by (simp add: descriptor_def props_JObj)
  have hd: "at_path (descriptor Identify g (props (cell h this_ref)) (props (deref h params)))
      [''defaultOptions'', ''headers'', k] =
      layer (layer JUndefined
               (getProperty (plain (getProperty (props (cell h this_ref)) ''headers'')) k))
        (layer (layer (getProperty (g ''language_translator'' ''v3'' ''identify'') k)
                  (getProperty [(''Accept'', JStr ''application/json''),
                                (''Content-Type'', JStr ''text/plain'')] k))
           (getProperty (props (getProperty (props (deref h params)) ''headers'')) k))"
    using at_path_descriptor_headers[of Identify g "props (cell h this_ref)"
        "props (deref h params)" k]
    by simp
  from again frame did opts hd show ?thesis
    by blast
qed

text \<open>
  \<^verbatim>\<open>identify({text: 'hola'})\<close> twice on one client: the second call hands over the
  descriptor of the first, and the client's options are as they were.
\<close>

theorem identify_request_determined_witness:
  "did (method_at Identify (new_object (\<lambda>_ _ _. [(''User-Agent'', JStr ''sdk'')])) 0 (JRef 1)
          (JFn 1)
          (heap_after (method_at Identify (new_object (\<lambda>_ _ _. [(''User-Agent'', JStr ''sdk'')]))
             0 (JRef 1) (JFn 0)
             (Heap ((\<lambda>_. JUndefined)
                (0 := JObj [(''qs'', JObj [])], 1 := JObj [(''text'', JStr ''hola'')])) 2)))) =
     Sent (descriptor Identify (\<lambda>_ _ _. [(''User-Agent'', JStr ''sdk'')]) [(''qs'', JObj [])]
             [(''text'', JStr ''hola'')])
   \<and> did (method_at Identify (new_object (\<lambda>_ _ _. [(''User-Agent'', JStr ''sdk'')])) 0 (JRef 1)
          (JFn 0)
          (Heap ((\<lambda>_. JUndefined)
             (0 := JObj [(''qs'', JObj [])], 1 := JObj [(''text'', JStr ''hola'')])) 2)) =
     Sent (descriptor Identify (\<lambda>_ _ _. [(''User-Agent'', JStr ''sdk'')]) [(''qs'', JObj [])]
             [(''text'', JStr ''hola'')])
   \<and> cell (heap_after (method_at Identify (new_object (\<lambda>_ _ _. [(''User-Agent'', JStr ''sdk'')]))
             0 (JRef 1) (JFn 0)
             (Heap ((\<lambda>_. JUndefined)
                (0 := JObj [(''qs'', JObj [])], 1 := JObj [(''text'', JStr ''hola'')])) 2))) 0 =
     JObj [(''qs'', JObj [])]
   \<and> at_path (descriptor Identify (\<lambda>_ _ _. [(''User-Agent'', JStr ''sdk'')]) [(''qs'', JObj [])]
             [(''text'', JStr ''hola'')]) [''defaultOptions'', ''headers'', ''User-Agent''] =
     JStr ''sdk''"
  using identify_request_determined [of 0
      "Heap ((\<lambda>_. JUndefined)
         (0 := JObj [(''qs'', JObj [])], 1 := JObj [(''text'', JStr ''hola'')])) 2"
      "JRef 1" "\<lambda>_ _ _. [(''User-Agent'', JStr ''sdk'')]" "JFn 1" "JFn 0" 0 "''User-Agent''"]
  by (simp add: allocated_def deref_def props_def plain_def isMissing_def layer_def
      del: at_path.simps)

text \<open>
  C10. listIdentifiableLanguages and listModels called with a function as their first and
  only argument take that function as the completion handler and hand the transport the
  request descriptor built from empty params: exactly what they do when called with an
  empty params object and that handler. The other five operations have no such overload:
  called the same way they return a promise, rejected with the validation error for their
  required parameter, send nothing and never use the function.
\<close>

theorem callback_as_first_argument:
  "listIdentifiableLanguages getSdkHeaders createRequest this_options (JFn f) JUndefined =
     Completes (JFn f)
       (Sent (descriptor ListIdentifiableLanguages getSdkHeaders this_options []))
   \<and> listIdentifiableLanguages getSdkHeaders createRequest this_options (JObj []) (JFn f) =
     Completes (JFn f)
       (Sent (descriptor ListIdentifiableLanguages getSdkHeaders this_options []))
   \<and> listModels getSdkHeaders createRequest this_options (JFn f) JUndefined =
     Completes (JFn f) (Sent (descriptor ListModels getSdkHeaders this_options []))
   \<and> listModels getSdkHeaders createRequest this_options (JObj []) (JFn f) =
     Completes (JFn f) (Sent (descriptor ListModels getSdkHeaders this_options []))
   \<and> translate getSdkHeaders createRequest this_options (JFn f) JUndefined =
     Promises (Reported (JMissing [''text''])) (Rejected (JMissing [''text'']))
   \<and> identify getSdkHeaders createRequest this_options (JFn f) JUndefined =
     Promises (Reported (JMissing [''text''])) (Rejected (JMissing [''text'']))
   \<and> createModel getSdkHeaders createRequest this_options (JFn f) JUndefined =
     Promises (Reported (JMissing [''base_model_id'']))
       (Rejected (JMissing [''base_model_id'']))
   \<and> deleteModel getSdkHeaders createRequest this_options (JFn f) JUndefined =
     Promises (Reported (JMissing [''model_id''])) (Rejected (JMissing [''model_id'']))
   \<and> getModel getSdkHeaders createRequest this_options (JFn f) JUndefined =
     Promises (Reported (JMissing [''model_id''])) (Rejected (JMissing [''model_id'']))"
proof -
  have "invoke ListIdentifiableLanguages getSdkHeaders createRequest this_options (JFn f)
          JUndefined =
        Completes (JFn f)
          (Sent (descriptor ListIdentifiableLanguages getSdkHeaders this_options []))"
    "invoke ListIdentifiableLanguages getSdkHeaders createRequest this_options (JObj []) (JFn f) =
        Completes (JFn f)
          (Sent (descriptor ListIdentifiableLanguages getSdkHeaders this_options []))"
    "invoke ListModels getSdkHeaders createRequest this_options (JFn f) JUndefined =
        Completes (JFn f) (Sent (descriptor ListModels getSdkHeaders this_options []))"
    "invoke ListModels getSdkHeaders createRequest this_options (JObj []) (JFn f) =
        Completes (JFn f) (Sent (descriptor ListModels getSdkHeaders this_options []))"
    "invoke Translate getSdkHeaders createRequest this_options (JFn f) JUndefined =
        Promises (Reported (JMissing [''text''])) (Rejected (JMissing [''text'']))"
    "invoke Identify getSdkHeaders createRequest this_options (JFn f) JUndefined =
        Promises (Reported (JMissing [''text''])) (Rejected (JMissing [''text'']))"
    "invoke CreateModel getSdkHeaders createRequest this_options (JFn f) JUndefined =
        Promises (Reported (JMissing [''base_model_id'']))
          (Rejected (JMissing [''base_model_id'']))"
    "invoke DeleteModel getSdkHeaders createRequest this_options (JFn f) JUndefined =
        Promises (Reported (JMissing [''model_id''])) (Rejected (JMissing [''model_id'']))"
    "invoke GetModel getSdkHeaders createRequest this_options (JFn f) JUndefined =
        Promises (Reported (JMissing [''model_id''])) (Rejected (JMissing [''model_id'']))"
    by (simp_all add: invoke_shape callback_first_allowed_def outcome_for_def lacking_def
        isMissing_def new_Promise_def completion_def truthy_def is_function_def props_def
        del: invoke.simps)
  then show ?thesis by simp
qed

end
